theory Spec2Isabelle
  imports Main "HOL-Library.Word"
begin

section \<open>JavaScript strings\<close>

text \<open>
  A JavaScript string is a sequence of UTF-16 code units. String literals of the source
  are written \<open>js ''...''\<close>.
\<close>

type_synonym code_unit = "16 word"

type_synonym jsstring = "code_unit list"

definition js :: "string \<Rightarrow> jsstring" where
  "js s = map (\<lambda>c. of_nat (of_char c)) s"

definition semicolon :: code_unit where
  "semicolon = 59"

definition equalsSign :: code_unit where
  "equalsSign = 61"

text \<open>
  The white space of \<open>String.prototype.trim\<close> and of the regular expression class
  \<open>\s\<close> (the same set: TAB, LF, VT, FF, CR, SP, NBSP, U+1680, U+2000..U+200A,
  U+2028, U+2029, U+202F, U+205F, U+3000, U+FEFF).
\<close>

definition isWhiteSpace :: "code_unit \<Rightarrow> bool" where
  "isWhiteSpace c \<longleftrightarrow>
     (9 \<le> c \<and> c \<le> 13) \<or> c = 32 \<or> c = 160 \<or> c = 5760 \<or> (8192 \<le> c \<and> c \<le> 8202) \<or>
     c = 8232 \<or> c = 8233 \<or> c = 8239 \<or> c = 8287 \<or> c = 12288 \<or> c = 65279"

text \<open>The regular expression class \<open>[a-zA-Z]\<close>.\<close>

definition isAsciiLetter :: "code_unit \<Rightarrow> bool" where
  "isAsciiLetter c \<longleftrightarrow> (65 \<le> c \<and> c \<le> 90) \<or> (97 \<le> c \<and> c \<le> 122)"

text \<open>\<open>s.trim()\<close>\<close>

definition trim_str :: "jsstring \<Rightarrow> jsstring" where
  "trim_str s = rev (dropWhile isWhiteSpace (rev (dropWhile isWhiteSpace s)))"

text \<open>\<open>s.startsWith(p)\<close>\<close>

definition startsWith :: "jsstring \<Rightarrow> jsstring \<Rightarrow> bool" where
  "startsWith s p \<longleftrightarrow> take (length p) s = p"

text \<open>
  \<open>s.split(sep)\<close> for a separator of one code unit: the pieces between the
  separators, in order; a string without separator is its only piece.
\<close>

fun split_str :: "code_unit \<Rightarrow> jsstring \<Rightarrow> jsstring list" where
  "split_str sep [] = [[]]"
| "split_str sep (c # cs) =
     (if c = sep then [] # split_str sep cs
      else (case split_str sep cs of [] \<Rightarrow> [[c]] | p # ps \<Rightarrow> (c # p) # ps))"

text \<open>\<open>xs?.[i]\<close>: the element, or undefined out of range.\<close>

definition at_index :: "'a list \<Rightarrow> nat \<Rightarrow> 'a option" where
  "at_index xs i = (if i < length xs then Some (xs ! i) else None)"

text \<open>Truthiness of a value of type \<open>string | null | undefined\<close>.\<close>

fun truthy :: "jsstring option \<Rightarrow> bool" where
  "truthy None = False"
| "truthy (Some s) = (s \<noteq> [])"

text \<open>Object spread \<open>...(o)\<close> of an object that may be undefined.\<close>

definition spread :: "('k \<rightharpoonup> 'v) option \<Rightarrow> ('k \<rightharpoonup> 'v)" where
  "spread obj = (case obj of None \<Rightarrow> Map.empty | Some m \<Rightarrow> m)"

section \<open>Configuration and execution environment\<close>

text \<open>
  Modelled from the spec: the type declaration \<open>ClientConfig\<close> (\<open>../types\<close>) and the
  generated module \<open>#apollo\<close> are not among the sources. The fields are the ones
  \<open>plugin.ts\<close> reads, with the types of section 3 of the specification:
  \<open>tokenStorage\<close> is \<open>cookie\<close>, \<open>localStorage\<close> or anything else; \<open>authType\<close> is
  \<open>null\<close>, a string, or left undefined.
\<close>

datatype token_storage = CookieStorage | LocalStorage | OtherStorage

datatype auth_type = AuthTypeNull | AuthTypeUndefined | AuthTypeString jsstring

datatype js_error = HookRejected | ConnectionParamsRejected

record connection_params =
  cpHeaders :: "(jsstring \<rightharpoonup> jsstring) option"
  cpOther :: "jsstring \<rightharpoonup> jsstring"

text \<open>
  \<open>wsLinkOptions?.connectionParams\<close>: undefined, an object, or an async function; the
  function is given by what awaiting its call yields (an object, null or undefined, or
  a rejection).
\<close>

datatype ws_connection_params =
    CPUndefined
  | CPLiteral connection_params
  | CPFunction "js_error + connection_params option"

record client_config =
  httpEndpoint :: jsstring
  browserHttpEndpoint :: "jsstring option"
  wsEndpoint :: "jsstring option"
  tokenStorage :: token_storage
  tokenName :: jsstring
  authHeader :: jsstring
  authType :: auth_type
  websocketsOnly :: bool
  wsConnectionParams :: ws_connection_params

text \<open>
  What the \<open>apollo:auth\<close> hooks leave in the token slot (which starts as null) for a
  client key, or that a hook threw.
\<close>

datatype hook_outcome = HookThrows | HookSlot "jsstring option"

text \<open>
  The execution environment of one plugin run: \<open>process.server\<close>
  (\<open>process.client\<close> is its negation), the module options \<open>proxyCookies\<close> and
  \<open>clientAwareness\<close>, the headers of the incoming request, the hook, and the two
  storage collaborators (\<open>useCookie(name).value\<close> and \<open>localStorage.getItem(name)\<close>).
\<close>

record env =
  processServer :: bool
  proxyCookies :: bool
  clientAwareness :: bool
  requestHeaders :: "jsstring \<rightharpoonup> jsstring"
  authHook :: "jsstring \<Rightarrow> hook_outcome"
  cookieValue :: "jsstring \<Rightarrow> jsstring option"
  localStorageItem :: "jsstring \<Rightarrow> jsstring option"

text \<open>
  \<open>useRequestHeaders(names)\<close>: on the server, the named request headers that have a
  truthy value.
\<close>

definition useRequestHeaders :: "env \<Rightarrow> jsstring list \<Rightarrow> (jsstring \<rightharpoonup> jsstring)" where
  "useRequestHeaders e names =
     (\<lambda>k. if k \<in> set names \<and> truthy (requestHeaders e k) then requestHeaders e k else None)"

text \<open>
  Line 22: \<open>(process.server && NuxtApollo.proxyCookies && useRequestHeaders(['cookie'])) || undefined\<close>.
\<close>

definition requestCookies :: "env \<Rightarrow> (jsstring \<rightharpoonup> jsstring) option" where
  "requestCookies e =
     (if processServer e \<and> proxyCookies e then Some (useRequestHeaders e [js ''cookie''])
      else None)"

section \<open>Token resolution (\<open>getAuth\<close>)\<close>

text \<open>The storage reads of one resolution, in order.\<close>

datatype storage_access =
    UseCookie jsstring
  | RequestCookieScan
  | LocalStorageGetItem jsstring

text \<open>
  Line 38:
  \<open>cookie.split(';').find(c => c.trim().startsWith(`${tokenName}=`))?.split('=')?.[1]\<close>.
\<close>

definition cookieFromHeader :: "jsstring \<Rightarrow> jsstring \<Rightarrow> jsstring option" where
  "cookieFromHeader name cookie =
     (case find (\<lambda>c. startsWith (trim_str c) (name @ js ''='')) (split_str semicolon cookie) of
        None \<Rightarrow> None
      | Some c \<Rightarrow> at_index (split_str equalsSign c) 1)"

text \<open>
  Lines 33 to 43, entered with a falsy slot: the storage reads made and the slot
  afterwards.
\<close>

definition storageToken :: "env \<Rightarrow> client_config \<Rightarrow> jsstring option \<Rightarrow> storage_access list \<times> jsstring option" where
  "storageToken e cfg slot =
     (if tokenStorage cfg = CookieStorage then
        (if \<not> processServer e then
           (let t = cookieValue e (tokenName cfg)
            in ([UseCookie (tokenName cfg)], if truthy t then t else slot))
         else
           (case spread (requestCookies e) (js ''cookie'') of
              None \<Rightarrow> ([], slot)
            | Some cookie \<Rightarrow>
                if cookie = [] then ([], slot)
                else (let t = cookieFromHeader (tokenName cfg) cookie
                      in ([RequestCookieScan], if truthy t then t else slot))))
      else if \<not> processServer e \<and> tokenStorage cfg = LocalStorage then
        ([LocalStorageGetItem (tokenName cfg)], localStorageItem e (tokenName cfg))
      else ([], slot))"

text \<open>
  Lines 28 to 46: the token \<open>getAuth\<close> goes on with (\<open>None\<close> where it returns
  undefined at line 45), with the storage reads made; \<open>Inl\<close> when the hook threw.
\<close>

definition resolveToken :: "env \<Rightarrow> client_config \<Rightarrow> jsstring \<Rightarrow> storage_access list \<times> (js_error + jsstring option)" where
  "resolveToken e cfg key =
     (case authHook e key of
        HookThrows \<Rightarrow> ([], Inl HookRejected)
      | HookSlot slot \<Rightarrow>
          if truthy slot then ([], Inr slot)
          else (let (reads, slot') = storageToken e cfg slot
                in (reads, Inr (if truthy slot' then slot' else None))))"

text \<open>Line 48: \<open>!!token.value?.match(/^[a-zA-Z]+\s/)?.[0]\<close>.\<close>

definition authScheme :: "jsstring \<Rightarrow> bool" where
  "authScheme token \<longleftrightarrow>
     takeWhile isAsciiLetter token \<noteq> [] \<and>
     (case dropWhile isAsciiLetter token of [] \<Rightarrow> False | c # _ \<Rightarrow> isWhiteSpace c)"

text \<open>The template literal \<open>`${clientConfig?.authType}`\<close>.\<close>

fun authTypeText :: "auth_type \<Rightarrow> jsstring" where
  "authTypeText (AuthTypeString s) = s"
| "authTypeText AuthTypeNull = js ''null''"
| "authTypeText AuthTypeUndefined = js ''undefined''"

text \<open>Lines 48 to 52: the header value for a resolved token.\<close>

definition authValue :: "client_config \<Rightarrow> jsstring \<Rightarrow> jsstring" where
  "authValue cfg token =
     (if authScheme token \<or> authType cfg = AuthTypeNull then token
      else authTypeText (authType cfg) @ js '' '' @ token)"

definition getAuth :: "env \<Rightarrow> client_config \<Rightarrow> jsstring \<Rightarrow> storage_access list \<times> (js_error + jsstring option)" where
  "getAuth e cfg key =
     (case resolveToken e cfg key of
        (reads, Inl err) \<Rightarrow> (reads, Inl err)
      | (reads, Inr None) \<Rightarrow> (reads, Inr None)
      | (reads, Inr (Some token)) \<Rightarrow> (reads, Inr (Some (authValue cfg token))))"

section \<open>The auth link (\<open>authLink\<close>)\<close>

text \<open>
  The context of an outgoing operation: its \<open>headers\<close> (possibly undefined) and,
  in the extension of the record, everything else.
\<close>

record op_context =
  ctxHeaders :: "(jsstring \<rightharpoonup> jsstring) option"

text \<open>
  Lines 55 to 67, the setter given to \<open>setContext\<close>: \<open>Inr None\<close> where it returns
  undefined, else the headers of the object it returns,
  \<open>{...headers, ...(requestCookies && requestCookies), [authHeader]: auth}\<close>.
\<close>

definition authLinkSetter :: "env \<Rightarrow> client_config \<Rightarrow> jsstring \<Rightarrow> (jsstring \<rightharpoonup> jsstring) option \<Rightarrow> js_error + (jsstring \<rightharpoonup> jsstring) option" where
  "authLinkSetter e cfg key hdrs =
     (case snd (getAuth e cfg key) of
        Inl err \<Rightarrow> Inl err
      | Inr auth \<Rightarrow>
          (case auth of
             None \<Rightarrow> Inr None
           | Some a \<Rightarrow>
               if a = [] then Inr None
               else Inr (Some ((spread hdrs ++ spread (requestCookies e))(authHeader cfg \<mapsto> a)))))"

text \<open>
  \<open>setContext(setter)\<close> of the client library: the operation is forwarded with the
  context \<open>{...context, ...returned}\<close>; a rejected setter fails the operation.
\<close>

definition authLink :: "env \<Rightarrow> client_config \<Rightarrow> jsstring \<Rightarrow> 'a op_context_scheme \<Rightarrow> js_error + 'a op_context_scheme" where
  "authLink e cfg key ctx =
     (case authLinkSetter e cfg key (ctxHeaders ctx) of
        Inl err \<Rightarrow> Inl err
      | Inr None \<Rightarrow> Inr ctx
      | Inr (Some h) \<Rightarrow> Inr (ctx\<lparr>ctxHeaders := Some h\<rparr>))"

section \<open>Link composition (\<open>link\<close>)\<close>

datatype operation_type = Query | Mutation | Subscription

text \<open>What \<open>getMainDefinition(query)\<close> yields for an operation's document.\<close>

datatype definition_node = OperationDefinition operation_type | FragmentDefinition

text \<open>The links an operation passes through, outermost first.\<close>

datatype link_stage = ErrorLink | AuthLink | HttpLink jsstring | WsLink jsstring

text \<open>Line 71: \<open>(process.client && browserHttpEndpoint) || httpEndpoint\<close>.\<close>

definition httpUri :: "env \<Rightarrow> client_config \<Rightarrow> jsstring" where
  "httpUri e cfg =
     (case browserHttpEndpoint cfg of
        None \<Rightarrow> httpEndpoint cfg
      | Some b \<Rightarrow> if \<not> processServer e \<and> b \<noteq> [] then b else httpEndpoint cfg)"

text \<open>Line 69: \<open>authLink.concat(createHttpLink(...))\<close>.\<close>

definition httpLink :: "env \<Rightarrow> client_config \<Rightarrow> link_stage list" where
  "httpLink e cfg = [AuthLink, HttpLink (httpUri e cfg)]"

text \<open>Lines 75 to 109: \<open>wsLink\<close> stays null unless \<open>process.client && wsEndpoint\<close>.\<close>

definition wsLink :: "env \<Rightarrow> client_config \<Rightarrow> link_stage option" where
  "wsLink e cfg =
     (case wsEndpoint cfg of
        None \<Rightarrow> None
      | Some url \<Rightarrow> if \<not> processServer e \<and> url \<noteq> [] then Some (WsLink url) else None)"

text \<open>
  Lines 123 to 126, the test of \<open>split\<close>:
  \<open>definition.kind === 'OperationDefinition' && definition.operation === 'subscription'\<close>.
\<close>

definition splitTest :: "definition_node \<Rightarrow> bool" where
  "splitTest d = (case d of OperationDefinition t \<Rightarrow> t = Subscription | FragmentDefinition \<Rightarrow> False)"

text \<open>
  Lines 115 to 131: the chain an operation with the given main definition is sent
  through. \<open>split(test, wsLink, httpLink)\<close> runs its test on each operation.
\<close>

definition link :: "env \<Rightarrow> client_config \<Rightarrow> definition_node \<Rightarrow> link_stage list" where
  "link e cfg mainDefinition =
     ErrorLink #
       (case wsLink e cfg of
          None \<Rightarrow> httpLink e cfg
        | Some ws \<Rightarrow>
            if websocketsOnly cfg then [ws]
            else if splitTest mainDefinition then [ws] else httpLink e cfg)"

section \<open>Connection parameters of the subscription client (\<open>connectionParams\<close>)\<close>

text \<open>
  Lines 81 to 100. The object \<open>{ [authHeader]: auth, ...(connectionParams?.headers || {}) }\<close>
  lists the auth header first and spreads the configured headers over it.
\<close>

definition connectionParams :: "env \<Rightarrow> client_config \<Rightarrow> jsstring \<Rightarrow> js_error + connection_params option" where
  "connectionParams e cfg key =
     (case (case wsConnectionParams cfg of
              CPUndefined \<Rightarrow> Inr (Some \<lparr>cpHeaders = None, cpOther = Map.empty\<rparr>)
            | CPLiteral p \<Rightarrow> Inr (Some p)
            | CPFunction r \<Rightarrow> r) of
        Inl err \<Rightarrow> Inl err
      | Inr params \<Rightarrow>
          (case snd (getAuth e cfg key) of
             Inl err \<Rightarrow> Inl err
           | Inr auth \<Rightarrow>
               (case auth of
                  None \<Rightarrow> Inr params
                | Some a \<Rightarrow>
                    if a = [] then Inr params
                    else Inr (Some
                      \<lparr>cpHeaders = Some ([authHeader cfg \<mapsto> a] ++
                           spread (case params of None \<Rightarrow> None | Some p \<Rightarrow> cpHeaders p)),
                       cpOther = (case params of None \<Rightarrow> Map.empty | Some p \<Rightarrow> cpOther p)\<rparr>))))"

section \<open>The plugin: building the client registry\<close>

text \<open>A value of the transferable payload; an object is opaque and truthy.\<close>

datatype js_value = JUndefined | JNull | JBool bool | JNumber int | JString jsstring | JObject nat

fun jsTruthy :: "js_value \<Rightarrow> bool" where
  "jsTruthy JUndefined = False"
| "jsTruthy JNull = False"
| "jsTruthy (JBool b) = b"
| "jsTruthy (JNumber n) = (n \<noteq> 0)"
| "jsTruthy (JString s) = (s \<noteq> [])"
| "jsTruthy (JObject _) = True"

text \<open>
  An \<open>InMemoryCache\<close>: as constructed, or after \<open>cache.restore(destr(JSON.stringify(v)))\<close>
  for the payload value \<open>v\<close>.
\<close>

datatype cache_state = FreshCache | RestoredCache js_value

text \<open>
  An \<open>ApolloClient\<close>: the key whose link it was built with, the address of its cache in
  the store of caches, and the options of lines 138 to 141.
\<close>

record apollo_client =
  clientKey :: jsstring
  cacheRef :: nat
  awarenessName :: "jsstring option"
  ssrMode :: bool
  ssrForceFetchDelay :: "nat option"

text \<open>
  What the plugin builds and touches: the object \<open>clients\<close> with the keys assigned to
  it, in order; the store of caches; the keys of \<open>nuxtApp._apolloWsClients\<close>; the
  callbacks registered on \<open>app:rendered\<close>, each given by the payload key it writes and
  the cache it extracts; and \<open>nuxtApp.payload.data\<close>.
\<close>

record plugin_state =
  clients :: "jsstring \<rightharpoonup> apollo_client"
  clientsWrites :: "jsstring list"
  caches :: "cache_state list"
  wsClients :: "jsstring list"
  renderedHooks :: "(jsstring \<times> nat) list"
  payloadData :: "jsstring \<Rightarrow> js_value"

text \<open>Line 153: \<open>`_apollo:${key}`\<close>.\<close>

definition cacheKey :: "jsstring \<Rightarrow> jsstring" where
  "cacheKey key = js ''_apollo:'' @ key"

text \<open>
  Lines 135 to 147: \<open>new ApolloClient({...})\<close> for a key, with the cache at the given
  address; \<open>name\<close> under client awareness, \<open>ssrMode\<close> on the server and
  \<open>ssrForceFetchDelay: 100\<close> on the client.
\<close>

definition newApolloClient :: "env \<Rightarrow> jsstring \<Rightarrow> nat \<Rightarrow> apollo_client" where
  "newApolloClient e key cache =
     \<lparr>clientKey = key, cacheRef = cache,
      awarenessName = (if clientAwareness e then Some key else None),
      ssrMode = processServer e,
      ssrForceFetchDelay = (if processServer e then None else Some 100)\<rparr>"

text \<open>
  Lines 75 to 147 of one iteration: the cache is constructed, the subscription client
  is registered under the key when \<open>wsLink\<close> is built, and the client is constructed
  and stored under its key.
\<close>

definition constructClient :: "env \<Rightarrow> plugin_state \<Rightarrow> jsstring \<times> client_config \<Rightarrow> plugin_state" where
  "constructClient e st entry =
     st\<lparr>caches := caches st @ [FreshCache],
        wsClients := (case wsLink e (snd entry) of
                        None \<Rightarrow> wsClients st
                      | Some ws \<Rightarrow> wsClients st @ [fst entry]),
        clients := (clients st)(fst entry \<mapsto> newApolloClient e (fst entry) (length (caches st))),
        clientsWrites := clientsWrites st @ [fst entry]\<rparr>"

text \<open>
  Lines 149 to 151:
  \<open>if (!clients?.default && !NuxtApollo?.clients?.default && key === Object.keys(NuxtApollo.clients)[0])
  { clients.default = clients[key] }\<close>.
\<close>

definition aliasDefault :: "(jsstring \<times> client_config) list \<Rightarrow> plugin_state \<Rightarrow> jsstring \<Rightarrow> plugin_state" where
  "aliasDefault configs st key =
     (if clients st (js ''default'') = None \<and> map_of configs (js ''default'') = None \<and>
         at_index (map fst configs) 0 = Some key
      then st\<lparr>clients := (clients st)(js ''default'' := clients st key),
              clientsWrites := clientsWrites st @ [js ''default'']\<rparr>
      else st)"

text \<open>
  Lines 153 to 157: the callback that stores \<open>cache.extract()\<close> under the cache key is
  registered on \<open>app:rendered\<close>.
\<close>

definition registerRendered :: "plugin_state \<Rightarrow> jsstring \<Rightarrow> nat \<Rightarrow> plugin_state" where
  "registerRendered st key cache = st\<lparr>renderedHooks := renderedHooks st @ [(cacheKey key, cache)]\<rparr>"

text \<open>
  Lines 159 to 161:
  \<open>if (process.client && nuxtApp.payload.data[cacheKey]) { cache.restore(...) }\<close>.
\<close>

definition restoreCache :: "env \<Rightarrow> plugin_state \<Rightarrow> jsstring \<Rightarrow> nat \<Rightarrow> plugin_state" where
  "restoreCache e st key cache =
     (if \<not> processServer e \<and> jsTruthy (payloadData st (cacheKey key))
      then st\<lparr>caches := (caches st)[cache := RestoredCache (payloadData st (cacheKey key))]\<rparr>
      else st)"

text \<open>
  One iteration of the loop of line 26 over \<open>Object.entries(NuxtApollo.clients)\<close>
  (\<open>configs\<close>, in the order of \<open>Object.keys\<close>).
\<close>

definition pluginIteration :: "env \<Rightarrow> (jsstring \<times> client_config) list \<Rightarrow> plugin_state \<Rightarrow> jsstring \<times> client_config \<Rightarrow> plugin_state" where
  "pluginIteration e configs st entry =
     (let key = fst entry;
          cache = length (caches st);
          st1 = constructClient e st entry;
          st2 = aliasDefault configs st1 key;
          st3 = registerRendered st2 key cache
      in restoreCache e st3 key cache)"

definition initialState :: "(jsstring \<Rightarrow> js_value) \<Rightarrow> plugin_state" where
  "initialState payload =
     \<lparr>clients = Map.empty, clientsWrites = [], caches = [], wsClients = [],
      renderedHooks = [], payloadData = payload\<rparr>"

text \<open>Lines 24 to 162: the plugin run on the payload it finds.\<close>

definition plugin :: "env \<Rightarrow> (jsstring \<times> client_config) list \<Rightarrow> (jsstring \<Rightarrow> js_value) \<Rightarrow> plugin_state" where
  "plugin e configs payload = foldl (pluginIteration e configs) (initialState payload) configs"

text \<open>
  The order of \<open>Object.keys\<close> and \<open>Object.entries\<close> on an object whose properties were
  declared in the given order: first the keys that are array indices (the canonical
  decimal form of an integer from 0 to 4294967294), in ascending numeric order, then
  the other keys in the order of their declaration.
\<close>

definition isDigit :: "code_unit \<Rightarrow> bool" where
  "isDigit c \<longleftrightarrow> 48 \<le> c \<and> c \<le> 57"

definition digitsValue :: "jsstring \<Rightarrow> nat" where
  "digitsValue s = foldl (\<lambda>n c. 10 * n + (unat c - 48)) 0 s"

definition isArrayIndex :: "jsstring \<Rightarrow> bool" where
  "isArrayIndex s \<longleftrightarrow>
     (case s of [] \<Rightarrow> False | c # cs \<Rightarrow> cs = [] \<or> c \<noteq> 48) \<and>
     list_all isDigit s \<and> digitsValue s \<le> 4294967294"

definition objectEntries :: "(jsstring \<times> 'a) list \<Rightarrow> (jsstring \<times> 'a) list" where
  "objectEntries declared =
     sort_key (\<lambda>x. digitsValue (fst x)) (filter (\<lambda>x. isArrayIndex (fst x)) declared) @
     filter (\<lambda>x. \<not> isArrayIndex (fst x)) declared"

section \<open>The specification's wording and its scenarios\<close>

text \<open>
  The header value as section 4.1 of the specification words it: a token with a
  leading scheme word is passed through; else a token under the policy \<open>null\<close> or
  \<open>"none"\<close> is passed through; else the token is prefixed with the policy.
\<close>

definition spec_authValue :: "client_config \<Rightarrow> jsstring \<Rightarrow> jsstring" where
  "spec_authValue cfg token =
     (if authScheme token then token
      else if authType cfg = AuthTypeNull \<or> authType cfg = AuthTypeString (js ''none'') then token
      else authTypeText (authType cfg) @ js '' '' @ token)"

text \<open>The configuration of the scenarios of section 8 of the specification.\<close>

definition scenarioConfig :: client_config where
  "scenarioConfig =
     \<lparr>httpEndpoint = js ''https://api/graphql'', browserHttpEndpoint = None,
      wsEndpoint = Some (js ''wss://api/graphql''), tokenStorage = CookieStorage,
      tokenName = js ''tok'', authHeader = js ''Authorization'',
      authType = AuthTypeString (js ''Bearer''), websocketsOnly = False,
      wsConnectionParams = CPUndefined\<rparr>"

text \<open>
  A server run with cookie proxying whose request carries the given cookie header, and
  a client run whose cookie store holds the given value under every name; no hook
  touches the token slot.
\<close>

definition serverEnv :: "jsstring \<Rightarrow> env" where
  "serverEnv cookie =
     \<lparr>processServer = True, proxyCookies = True, clientAwareness = False,
      requestHeaders = [js ''cookie'' \<mapsto> cookie], authHook = (\<lambda>k. HookSlot None),
      cookieValue = (\<lambda>n. None), localStorageItem = (\<lambda>n. None)\<rparr>"

definition clientEnv :: "jsstring option \<Rightarrow> env" where
  "clientEnv stored =
     \<lparr>processServer = False, proxyCookies = True, clientAwareness = False,
      requestHeaders = Map.empty, authHook = (\<lambda>k. HookSlot None),
      cookieValue = (\<lambda>n. stored), localStorageItem = (\<lambda>n. None)\<rparr>"

section \<open>Facts about the string operations\<close>

lemma split_str_nonempty: "split_str sep s \<noteq> []"
  by (induction s) (auto split: list.splits)

lemma split_str_no_sep: "sep \<notin> set a \<Longrightarrow> split_str sep a = [a]"
  by (induction a) auto

lemma split_str_append_sep:
  "sep \<notin> set a \<Longrightarrow> split_str sep (a @ sep # b) = a # split_str sep b"
  by (induction a) auto

lemma split_str_entries:
  "\<forall>c\<in>set before. sep \<notin> set c \<Longrightarrow>
   split_str sep (concat (map (\<lambda>c. c @ [sep]) before) @ x) = before @ split_str sep x"
  by (induction before) (auto simp: split_str_append_sep)

lemma find_append_first:
  "\<forall>c\<in>set before. \<not> P c \<Longrightarrow> P m \<Longrightarrow> find P (before @ m # after) = Some m"
  by (induction before) auto

lemma equalsSign_not_space: "\<not> isWhiteSpace equalsSign"
  by (simp add: isWhiteSpace_def equalsSign_def)

lemma semicolon_not_space: "\<not> isWhiteSpace semicolon"
  by (simp add: isWhiteSpace_def semicolon_def)

lemma js_equals: "js ''='' = [equalsSign]"
  by (simp add: js_def equalsSign_def)

lemma dropWhile_all: "\<forall>x\<in>set ws. P x \<Longrightarrow> dropWhile P (ws @ ys) = dropWhile P ys"
  by (induction ws) auto

lemma trim_entry_startsWith:
  assumes ws: "\<forall>x\<in>set ws. isWhiteSpace x"
    and name: "name = [] \<or> \<not> isWhiteSpace (hd name)"
  shows "startsWith (trim_str (ws @ name @ [equalsSign] @ v)) (name @ [equalsSign])"
proof -
  have d: "dropWhile isWhiteSpace (ws @ name @ [equalsSign] @ v) = name @ [equalsSign] @ v"
    using ws name equalsSign_not_space by (cases name) (auto simp: dropWhile_all)
  have r: "rev (dropWhile isWhiteSpace (rev (xs @ [equalsSign] @ v))) =
             xs @ [equalsSign] @ rev (dropWhile isWhiteSpace (rev v))" for xs
    using equalsSign_not_space by (simp add: dropWhile_append)
  show ?thesis
    unfolding trim_str_def d startsWith_def using r[of name] by simp
qed

lemma space_range: "isWhiteSpace c \<Longrightarrow> unat c \<le> 32 \<or> 160 \<le> unat c"
  unfolding isWhiteSpace_def word_le_nat_alt by auto

lemma letter_range: "isAsciiLetter c \<Longrightarrow> 65 \<le> unat c \<and> unat c \<le> 122"
  unfolding isAsciiLetter_def word_le_nat_alt by auto

lemma space_not_letter: "isWhiteSpace c \<Longrightarrow> \<not> isAsciiLetter c"
  using space_range[of c] letter_range[of c] by auto

lemma authScheme_iff:
  "authScheme token \<longleftrightarrow>
     (\<exists>w c r. token = w @ c # r \<and> w \<noteq> [] \<and> (\<forall>x\<in>set w. isAsciiLetter x) \<and> isWhiteSpace c)"
proof
  assume a: "authScheme token"
  then obtain c r where d: "dropWhile isAsciiLetter token = c # r" and c: "isWhiteSpace c"
    by (auto simp: authScheme_def split: list.splits)
  have "token = takeWhile isAsciiLetter token @ c # r"
    using takeWhile_dropWhile_id[of isAsciiLetter token] d by simp
  moreover have "takeWhile isAsciiLetter token \<noteq> []" using a by (simp add: authScheme_def)
  moreover have "\<forall>x\<in>set (takeWhile isAsciiLetter token). isAsciiLetter x"
    by (auto dest: set_takeWhileD)
  ultimately show "\<exists>w c r. token = w @ c # r \<and> w \<noteq> [] \<and> (\<forall>x\<in>set w. isAsciiLetter x) \<and> isWhiteSpace c"
    using c by blast
next
  assume "\<exists>w c r. token = w @ c # r \<and> w \<noteq> [] \<and> (\<forall>x\<in>set w. isAsciiLetter x) \<and> isWhiteSpace c"
  then obtain w c r where t: "token = w @ c # r" and w: "w \<noteq> []" "\<forall>x\<in>set w. isAsciiLetter x"
    and c: "isWhiteSpace c" by blast
  have nl: "\<not> isAsciiLetter c" using c by (rule space_not_letter)
  have "takeWhile isAsciiLetter token = w" "dropWhile isAsciiLetter token = c # r"
    using w(2) nl by (simp_all add: t)
  then show "authScheme token" using w(1) c by (simp add: authScheme_def)
qed

lemma cookieFromHeader_entry:
  assumes before: "\<forall>c\<in>set before. semicolon \<notin> set c \<and> \<not> startsWith (trim_str c) (name @ [equalsSign])"
    and ws: "\<forall>x\<in>set ws. isWhiteSpace x"
    and name: "equalsSign \<notin> set name" "semicolon \<notin> set name"
      "name = [] \<or> \<not> isWhiteSpace (hd name)"
    and v: "semicolon \<notin> set v" "equalsSign \<notin> set v"
    and rest: "rest = [] \<or> (\<exists>r. rest = semicolon # r)"
  shows "cookieFromHeader name
           (concat (map (\<lambda>c. c @ [semicolon]) before) @ ws @ name @ [equalsSign] @ v @ rest) = Some v"
proof -
  define m where "m = ws @ name @ [equalsSign] @ v"
  have ws_semi: "semicolon \<notin> set ws" and ws_eq: "equalsSign \<notin> set ws"
    using ws semicolon_not_space equalsSign_not_space by auto
  have m_semi: "semicolon \<notin> set m"
    using ws_semi name v by (simp add: m_def semicolon_def equalsSign_def)
  obtain after where "split_str semicolon (m @ rest) = m # after"
    using rest m_semi by (auto simp: split_str_no_sep split_str_append_sep)
  then have sp: "split_str semicolon (concat (map (\<lambda>c. c @ [semicolon]) before) @ m @ rest)
                   = before @ m # after"
    using before by (simp add: split_str_entries)
  have mm: "startsWith (trim_str m) (name @ [equalsSign])"
    unfolding m_def using ws name(3) by (rule trim_entry_startsWith)
  have fnd: "find (\<lambda>c. startsWith (trim_str c) (name @ [equalsSign])) (before @ m # after) = Some m"
    using before mm by (intro find_append_first) auto
  have "split_str equalsSign m = (ws @ name) # split_str equalsSign v"
    using split_str_append_sep[of equalsSign "ws @ name" v] ws_eq name(1) by (simp add: m_def)
  then have pieces: "split_str equalsSign m = [ws @ name, v]"
    using v(2) by (simp add: split_str_no_sep)
  have "cookieFromHeader name (concat (map (\<lambda>c. c @ [semicolon]) before) @ m @ rest) = Some v"
    unfolding cookieFromHeader_def js_equals sp fnd by (simp add: pieces at_index_def)
  then show ?thesis by (simp add: m_def)
qed

text \<open>
  The scan of line 38 on the two headers of the scenarios, and on a value that holds
  the separator \<open>=\<close>: the piece after the second \<open>=\<close> is lost to \<open>split('=')[1]\<close>.
\<close>

lemma cookieFromHeader_scenario:
  "cookieFromHeader (js ''tok'') (js ''tok=abc123; other=x'') = Some (js ''abc123'')"
  by (simp add: cookieFromHeader_def js_def semicolon_def equalsSign_def startsWith_def
      trim_str_def isWhiteSpace_def at_index_def)

lemma cookieFromHeader_value_with_equals:
  "cookieFromHeader (js ''tok'') (js ''tok=YWJjZA==; other=x'') = Some (js ''YWJjZA'')"
  by (simp add: cookieFromHeader_def js_def semicolon_def equalsSign_def startsWith_def
      trim_str_def isWhiteSpace_def at_index_def)

section \<open>Token resolution from the cookie header (C1)\<close>

text \<open>
  Claim C1, amended. For a configuration with \<open>tokenStorage = cookie\<close>, on a server run
  with cookie proxying enabled, when the auth hook leaves the token slot empty: if the
  raw cookie header is a sequence of entries closed by \<open>;\<close> of which none, trimmed,
  starts with \<open><tokenName>=\<close>, followed by white space, \<open><tokenName>=\<close>, a value
  \<open>v\<close> and either the end of the string or a \<open>;\<close>, where \<open>v\<close> is not empty and holds
  neither \<open>;\<close> nor \<open>=\<close> (and the token name holds neither and does not start with
  white space), then token resolution reads the header once and yields exactly \<open>v\<close>:
  the first matching entry wins and nothing is decoded.
\<close>

theorem resolveToken_server_cookie:
  assumes storage: "tokenStorage cfg = CookieStorage"
    and server: "processServer e" and proxy: "proxyCookies e"
    and hook: "authHook e key = HookSlot slot" "\<not> truthy slot"
    and header: "requestHeaders e (js ''cookie'') =
        Some (concat (map (\<lambda>c. c @ [semicolon]) before) @ ws @ tokenName cfg @ [equalsSign] @ v @ rest)"
    and before: "\<forall>c\<in>set before. semicolon \<notin> set c \<and>
        \<not> startsWith (trim_str c) (tokenName cfg @ [equalsSign])"
    and ws: "\<forall>x\<in>set ws. isWhiteSpace x"
    and name: "equalsSign \<notin> set (tokenName cfg)" "semicolon \<notin> set (tokenName cfg)"
      "tokenName cfg = [] \<or> \<not> isWhiteSpace (hd (tokenName cfg))"
    and v: "v \<noteq> []" "semicolon \<notin> set v" "equalsSign \<notin> set v"
    and rest: "rest = [] \<or> (\<exists>r. rest = semicolon # r)"
  shows "resolveToken e cfg key = ([RequestCookieScan], Inr (Some v))"
proof -
  let ?h = "concat (map (\<lambda>c. c @ [semicolon]) before) @ ws @ tokenName cfg @ [equalsSign] @ v @ rest"
  have c: "cookieFromHeader (tokenName cfg) ?h = Some v"
    using before ws name v(2,3) rest by (rule cookieFromHeader_entry)
  have rc: "spread (requestCookies e) (js ''cookie'') = Some ?h"
    using server proxy header by (simp add: requestCookies_def useRequestHeaders_def spread_def)
  have "storageToken e cfg slot = ([RequestCookieScan], Some v)"
    using storage server v(1) c rc by (simp add: storageToken_def)
  then show ?thesis
    using hook v(1) by (simp add: resolveToken_def)
qed

text \<open>
  The amended claim at the header \<open>other=x; tok=abc123; last=y\<close>, every hypothesis
  discharged.
\<close>

theorem resolveToken_server_cookie_witness:
  "resolveToken (serverEnv (js ''other=x; tok=abc123; last=y'')) scenarioConfig (js ''default'')
     = ([RequestCookieScan], Inr (Some (js ''abc123'')))"
proof -
  let ?e = "serverEnv (js ''other=x; tok=abc123; last=y'')"
  have h1: "tokenStorage scenarioConfig = CookieStorage" by (simp add: scenarioConfig_def)
  have h2: "processServer ?e" and h3: "proxyCookies ?e"
    and h4: "authHook ?e (js ''default'') = HookSlot None"
    by (simp_all add: serverEnv_def)
  have h5: "\<not> truthy None" by simp
  have h6: "requestHeaders ?e (js ''cookie'') =
      Some (concat (map (\<lambda>c. c @ [semicolon]) [js ''other=x'']) @ js '' '' @
            tokenName scenarioConfig @ [equalsSign] @ js ''abc123'' @ js ''; last=y'')"
    by (simp add: serverEnv_def scenarioConfig_def js_def semicolon_def equalsSign_def)
  have h7: "\<forall>c\<in>set [js ''other=x'']. semicolon \<notin> set c \<and>
      \<not> startsWith (trim_str c) (tokenName scenarioConfig @ [equalsSign])"
    by (simp add: scenarioConfig_def js_def semicolon_def equalsSign_def startsWith_def
        trim_str_def isWhiteSpace_def)
  have h8: "\<forall>x\<in>set (js '' ''). isWhiteSpace x" by (simp add: js_def isWhiteSpace_def)
  have h9: "equalsSign \<notin> set (tokenName scenarioConfig)"
    and h10: "semicolon \<notin> set (tokenName scenarioConfig)"
    and h11: "tokenName scenarioConfig = [] \<or> \<not> isWhiteSpace (hd (tokenName scenarioConfig))"
    by (simp_all add: scenarioConfig_def js_def semicolon_def equalsSign_def isWhiteSpace_def)
  have h12: "js ''abc123'' \<noteq> []" and h13: "semicolon \<notin> set (js ''abc123'')"
    and h14: "equalsSign \<notin> set (js ''abc123'')"
    by (simp_all add: js_def semicolon_def equalsSign_def)
  have h15: "js ''; last=y'' = [] \<or> (\<exists>r. js ''; last=y'' = semicolon # r)"
    by (simp add: js_def semicolon_def)
  show ?thesis
    by (rule resolveToken_server_cookie[OF h1 h2 h3 h4 h5 h6 h7 h8 h9 h10 h11 h12 h13 h14 h15])
qed

text \<open>
  Claim C1 as stated fails. With the header \<open>tok=abc123; other=x\<close> on a server run,
  resolution yields no token when cookie proxying is disabled (line 22 then leaves
  \<open>requestCookies\<close> undefined, so line 37 never scans), and yields the hook's token
  when a hook has filled the slot.
\<close>

theorem resolveToken_server_cookie_counterexample:
  "resolveToken ((serverEnv (js ''tok=abc123; other=x''))\<lparr>proxyCookies := False\<rparr>)
      scenarioConfig (js ''default'') = ([], Inr None) \<and>
   resolveToken ((serverEnv (js ''tok=abc123; other=x''))\<lparr>authHook := (\<lambda>k. HookSlot (Some (js ''fromhook'')))\<rparr>)
      scenarioConfig (js ''default'') = ([], Inr (Some (js ''fromhook'')))"
  by (simp add: resolveToken_def storageToken_def requestCookies_def spread_def serverEnv_def
      scenarioConfig_def js_def)

section \<open>Facts about \<open>getAuth\<close>\<close>

lemma authValue_nonempty: "token \<noteq> [] \<Longrightarrow> authValue cfg token \<noteq> []"
  by (simp add: authValue_def)

lemma resolveToken_nonempty: "snd (resolveToken e cfg key) = Inr (Some t) \<Longrightarrow> t \<noteq> []"
  by (auto simp: resolveToken_def Let_def split: hook_outcome.splits if_splits prod.splits)

lemma getAuth_reads: "fst (getAuth e cfg key) = fst (resolveToken e cfg key)"
  by (auto simp: getAuth_def split: prod.splits sum.splits option.splits)

lemma getAuth_result:
  "snd (getAuth e cfg key) =
     (case snd (resolveToken e cfg key) of
        Inl err \<Rightarrow> Inl err
      | Inr None \<Rightarrow> Inr None
      | Inr (Some token) \<Rightarrow> Inr (Some (authValue cfg token)))"
  by (auto simp: getAuth_def split: prod.splits sum.splits option.splits)

lemma getAuth_nonempty: "snd (getAuth e cfg key) = Inr (Some a) \<Longrightarrow> a \<noteq> []"
  by (auto simp: getAuth_result authValue_nonempty split: sum.splits option.splits
      dest: resolveToken_nonempty)

lemma requestCookies_server:
  assumes "processServer e" "proxyCookies e" "requestHeaders e (js ''cookie'') = Some c" "c \<noteq> []"
  shows "requestCookies e = Some [js ''cookie'' \<mapsto> c]"
proof -
  have "useRequestHeaders e [js ''cookie''] = [js ''cookie'' \<mapsto> c]"
    using assms by (auto simp: useRequestHeaders_def fun_eq_iff)
  then show ?thesis using assms by (simp add: requestCookies_def)
qed

lemma resolveToken_scenario:
  "resolveToken (serverEnv (js ''tok=abc123; other=x'')) (scenarioConfig\<lparr>authType := p\<rparr>) (js ''default'')
     = ([RequestCookieScan], Inr (Some (js ''abc123'')))"
  using cookieFromHeader_scenario
  by (simp add: resolveToken_def storageToken_def requestCookies_def useRequestHeaders_def spread_def
      serverEnv_def scenarioConfig_def js_def)

lemma resolveToken_scenario_scheme:
  "resolveToken (serverEnv (js ''tok=Bearer xyz'')) scenarioConfig (js ''default'')
     = ([RequestCookieScan], Inr (Some (js ''Bearer xyz'')))"
proof -
  have "cookieFromHeader (js ''tok'') (js ''tok=Bearer xyz'') = Some (js ''Bearer xyz'')"
    by (simp add: cookieFromHeader_def js_def semicolon_def equalsSign_def startsWith_def
      trim_str_def isWhiteSpace_def at_index_def)
  then show ?thesis
    by (simp add: resolveToken_def storageToken_def requestCookies_def useRequestHeaders_def spread_def
      serverEnv_def scenarioConfig_def js_def)
qed

lemma authScheme_examples:
  "\<not> authScheme (js ''abc123'')" "authScheme (js ''Bearer xyz'')"
  by (simp_all add: authScheme_def js_def isAsciiLetter_def isWhiteSpace_def)

lemma getAuth_scenario:
  "snd (getAuth (serverEnv (js ''tok=abc123; other=x'')) scenarioConfig (js ''default''))
     = Inr (Some (js ''Bearer abc123''))"
  using resolveToken_scenario[of "AuthTypeString (js ''Bearer'')"] authScheme_examples(1)
  by (simp add: getAuth_result authValue_def scenarioConfig_def) (simp add: js_def)

lemma cookieFromHeader_absent:
  "cookieFromHeader (js ''tok'') (js ''other=x'') = None"
  by (simp add: cookieFromHeader_def js_def semicolon_def equalsSign_def startsWith_def
      trim_str_def isWhiteSpace_def at_index_def)

lemma getAuth_no_cookie:
  "snd (getAuth (serverEnv (js ''other=x'')) scenarioConfig (js ''default'')) = Inr None"
  using cookieFromHeader_absent
  by (simp add: getAuth_result resolveToken_def storageToken_def requestCookies_def
      useRequestHeaders_def spread_def serverEnv_def scenarioConfig_def js_def)

lemma storageToken_reads:
  "a \<in> set (fst (storageToken e cfg slot)) \<Longrightarrow>
     (case a of
        UseCookie n \<Rightarrow> tokenStorage cfg = CookieStorage \<and> \<not> processServer e \<and> n = tokenName cfg
      | RequestCookieScan \<Rightarrow> tokenStorage cfg = CookieStorage \<and> processServer e \<and> proxyCookies e
      | LocalStorageGetItem n \<Rightarrow> tokenStorage cfg = LocalStorage \<and> \<not> processServer e \<and> n = tokenName cfg)"
  by (auto simp: storageToken_def Let_def requestCookies_def spread_def
      split: if_splits option.splits storage_access.splits)

lemma storageToken_nothing:
  assumes "\<not> truthy slot" "\<not> truthy (cookieValue e (tokenName cfg))"
    "\<not> truthy (localStorageItem e (tokenName cfg))"
    "\<forall>c. requestHeaders e (js ''cookie'') = Some c \<longrightarrow> \<not> truthy (cookieFromHeader (tokenName cfg) c)"
  shows "\<not> truthy (snd (storageToken e cfg slot))"
  using assms
  by (auto simp: storageToken_def Let_def requestCookies_def spread_def useRequestHeaders_def
      split: if_splits option.splits)

section \<open>The header value (C2)\<close>

text \<open>
  Claim C2, amended. For every token that token resolution yields, the header value of
  \<open>getAuth\<close> follows three cases: a token that matches \<open>^[a-zA-Z]+\s\<close> (one or more
  ASCII letters followed by a white space character) is returned unchanged whatever
  \<open>authType\<close> is; else a token under \<open>authType = null\<close> is returned unchanged; else the
  result is \<open><authType> <token>\<close>, for every string \<open>authType\<close>, the string
  \<open>none\<close> included (and \<open>undefined <token>\<close> when \<open>authType\<close> is left undefined).
\<close>

theorem getAuth_header_value:
  assumes "snd (resolveToken e cfg key) = Inr (Some token)"
  shows "snd (getAuth e cfg key) = Inr (Some
     (if (\<exists>w c r. token = w @ c # r \<and> w \<noteq> [] \<and> (\<forall>x\<in>set w. isAsciiLetter x) \<and> isWhiteSpace c)
      then token
      else (case authType cfg of
              AuthTypeNull \<Rightarrow> token
            | AuthTypeString s \<Rightarrow> s @ js '' '' @ token
            | AuthTypeUndefined \<Rightarrow> js ''undefined'' @ js '' '' @ token)))"
proof -
  have "snd (getAuth e cfg key) = Inr (Some (authValue cfg token))"
    by (simp add: getAuth_result assms)
  then show ?thesis
    unfolding authScheme_iff[symmetric] by (cases "authType cfg") (simp_all add: authValue_def)
qed

text \<open>
  The amended claim on the scenarios of the specification: a bare token under
  \<open>Bearer\<close>, under \<open>null\<close> and under \<open>none\<close>, and a token that carries its scheme.
\<close>

theorem getAuth_header_value_witness:
  "snd (getAuth (serverEnv (js ''tok=abc123; other=x'')) (scenarioConfig\<lparr>authType := AuthTypeString (js ''Bearer'')\<rparr>) (js ''default''))
     = Inr (Some (js ''Bearer abc123'')) \<and>
   snd (getAuth (serverEnv (js ''tok=abc123; other=x'')) (scenarioConfig\<lparr>authType := AuthTypeNull\<rparr>) (js ''default''))
     = Inr (Some (js ''abc123'')) \<and>
   snd (getAuth (serverEnv (js ''tok=abc123; other=x'')) (scenarioConfig\<lparr>authType := AuthTypeString (js ''none'')\<rparr>) (js ''default''))
     = Inr (Some (js ''none abc123'')) \<and>
   snd (getAuth (serverEnv (js ''tok=Bearer xyz'')) scenarioConfig (js ''default''))
     = Inr (Some (js ''Bearer xyz''))"
proof -
  have r: "snd (resolveToken (serverEnv (js ''tok=abc123; other=x'')) (scenarioConfig\<lparr>authType := p\<rparr>) (js ''default''))
      = Inr (Some (js ''abc123''))" for p
    by (simp add: resolveToken_scenario)
  have r': "snd (resolveToken (serverEnv (js ''tok=Bearer xyz'')) scenarioConfig (js ''default''))
      = Inr (Some (js ''Bearer xyz''))"
    by (simp add: resolveToken_scenario_scheme)
  have 1: "snd (getAuth (serverEnv (js ''tok=abc123; other=x'')) (scenarioConfig\<lparr>authType := AuthTypeString (js ''Bearer'')\<rparr>) (js ''default''))
     = Inr (Some (js ''Bearer abc123''))"
    using getAuth_header_value[OF r[of "AuthTypeString (js ''Bearer'')"]] authScheme_examples(1)
    unfolding authScheme_iff[symmetric] by (simp add: js_def)
  have 2: "snd (getAuth (serverEnv (js ''tok=abc123; other=x'')) (scenarioConfig\<lparr>authType := AuthTypeNull\<rparr>) (js ''default''))
     = Inr (Some (js ''abc123''))"
    using getAuth_header_value[OF r[of AuthTypeNull]] authScheme_examples(1)
    unfolding authScheme_iff[symmetric] by (simp add: js_def)
  have 3: "snd (getAuth (serverEnv (js ''tok=abc123; other=x'')) (scenarioConfig\<lparr>authType := AuthTypeString (js ''none'')\<rparr>) (js ''default''))
     = Inr (Some (js ''none abc123''))"
    using getAuth_header_value[OF r[of "AuthTypeString (js ''none'')"]] authScheme_examples(1)
    unfolding authScheme_iff[symmetric] by (simp add: js_def)
  have 4: "snd (getAuth (serverEnv (js ''tok=Bearer xyz'')) scenarioConfig (js ''default''))
     = Inr (Some (js ''Bearer xyz''))"
    using getAuth_header_value[OF r'] authScheme_examples(2)
    unfolding authScheme_iff[symmetric] by simp
  from 1 2 3 4 show ?thesis by blast
qed

text \<open>
  Claim C2 as stated fails: with \<open>authType = "none"\<close> and the token \<open>abc123\<close> the
  code yields \<open>none abc123\<close>, where the derivation of the specification passes the
  bare token through. Line 50 tests \<open>authType === null\<close> only.
\<close>

theorem getAuth_header_value_counterexample:
  "snd (getAuth (serverEnv (js ''tok=abc123; other=x'')) (scenarioConfig\<lparr>authType := AuthTypeString (js ''none'')\<rparr>) (js ''default''))
     = Inr (Some (js ''none abc123'')) \<and>
   spec_authValue (scenarioConfig\<lparr>authType := AuthTypeString (js ''none'')\<rparr>) (js ''abc123'') = js ''abc123'' \<and>
   js ''none abc123'' \<noteq> js ''abc123''"
  using authScheme_examples(1)
  by (simp add: getAuth_result resolveToken_scenario authValue_def spec_authValue_def) (simp add: js_def)

section \<open>Precedence of the token sources (C3)\<close>

text \<open>
  Claim C3. A token that the auth hook leaves in the slot is the result, and no storage
  is read. Every storage read happens after a hook that left the slot empty: the cookie
  store and the request's cookie header only under \<open>tokenStorage = cookie\<close> (the store
  on the client, the header on the server), local storage only under
  \<open>tokenStorage = localStorage\<close> on the client; on the client these reads are made and
  their truthy value is the token. \<open>getAuth\<close> fails only when the hook throws, and when
  the hook, the cookie store, local storage and the cookie header all yield nothing it
  returns no credential.
\<close>

theorem resolveToken_precedence:
  "(authHook e key = HookSlot (Some t) \<and> t \<noteq> [] \<longrightarrow> resolveToken e cfg key = ([], Inr (Some t))) \<and>
   (a \<in> set (fst (resolveToken e cfg key)) \<longrightarrow>
      (\<exists>slot. authHook e key = HookSlot slot \<and> \<not> truthy slot) \<and>
      (case a of
         UseCookie n \<Rightarrow> tokenStorage cfg = CookieStorage \<and> \<not> processServer e \<and> n = tokenName cfg
       | RequestCookieScan \<Rightarrow> tokenStorage cfg = CookieStorage \<and> processServer e \<and> proxyCookies e
       | LocalStorageGetItem n \<Rightarrow> tokenStorage cfg = LocalStorage \<and> \<not> processServer e \<and> n = tokenName cfg)) \<and>
   (authHook e key = HookSlot slot \<and> \<not> truthy slot \<and> tokenStorage cfg = CookieStorage \<and> \<not> processServer e \<longrightarrow>
      resolveToken e cfg key =
        ([UseCookie (tokenName cfg)],
         Inr (if truthy (cookieValue e (tokenName cfg)) then cookieValue e (tokenName cfg) else None))) \<and>
   (authHook e key = HookSlot slot \<and> \<not> truthy slot \<and> tokenStorage cfg = LocalStorage \<and> \<not> processServer e \<longrightarrow>
      resolveToken e cfg key =
        ([LocalStorageGetItem (tokenName cfg)],
         Inr (if truthy (localStorageItem e (tokenName cfg)) then localStorageItem e (tokenName cfg) else None))) \<and>
   (authHook e key = HookSlot slot \<longrightarrow> (\<exists>r. snd (getAuth e cfg key) = Inr r)) \<and>
   (authHook e key = HookSlot slot \<and> \<not> truthy slot \<and>
      \<not> truthy (cookieValue e (tokenName cfg)) \<and> \<not> truthy (localStorageItem e (tokenName cfg)) \<and>
      (\<forall>c. requestHeaders e (js ''cookie'') = Some c \<longrightarrow> \<not> truthy (cookieFromHeader (tokenName cfg) c))
      \<longrightarrow> snd (getAuth e cfg key) = Inr None)"
proof (intro conjI impI)
  assume "authHook e key = HookSlot (Some t) \<and> t \<noteq> []"
  then show "resolveToken e cfg key = ([], Inr (Some t))"
    by (simp add: resolveToken_def)
next
  assume a: "a \<in> set (fst (resolveToken e cfg key))"
  then obtain slot where s: "authHook e key = HookSlot slot" "\<not> truthy slot"
    and r: "a \<in> set (fst (storageToken e cfg slot))"
    by (auto simp: resolveToken_def Let_def split: hook_outcome.splits if_splits prod.splits)
  from s show "\<exists>slot. authHook e key = HookSlot slot \<and> \<not> truthy slot" by blast
  from r show "case a of
         UseCookie n \<Rightarrow> tokenStorage cfg = CookieStorage \<and> \<not> processServer e \<and> n = tokenName cfg
       | RequestCookieScan \<Rightarrow> tokenStorage cfg = CookieStorage \<and> processServer e \<and> proxyCookies e
       | LocalStorageGetItem n \<Rightarrow> tokenStorage cfg = LocalStorage \<and> \<not> processServer e \<and> n = tokenName cfg"
    by (rule storageToken_reads)
next
  assume "authHook e key = HookSlot slot \<and> \<not> truthy slot \<and> tokenStorage cfg = CookieStorage \<and> \<not> processServer e"
  then show "resolveToken e cfg key =
        ([UseCookie (tokenName cfg)],
         Inr (if truthy (cookieValue e (tokenName cfg)) then cookieValue e (tokenName cfg) else None))"
    by (simp add: resolveToken_def storageToken_def Let_def)
next
  assume "authHook e key = HookSlot slot \<and> \<not> truthy slot \<and> tokenStorage cfg = LocalStorage \<and> \<not> processServer e"
  then show "resolveToken e cfg key =
        ([LocalStorageGetItem (tokenName cfg)],
         Inr (if truthy (localStorageItem e (tokenName cfg)) then localStorageItem e (tokenName cfg) else None))"
    by (simp add: resolveToken_def storageToken_def Let_def)
next
  assume "authHook e key = HookSlot slot"
  then show "\<exists>r. snd (getAuth e cfg key) = Inr r"
    by (auto simp: getAuth_result resolveToken_def Let_def split: prod.splits option.splits)
next
  assume h: "authHook e key = HookSlot slot \<and> \<not> truthy slot \<and>
      \<not> truthy (cookieValue e (tokenName cfg)) \<and> \<not> truthy (localStorageItem e (tokenName cfg)) \<and>
      (\<forall>c. requestHeaders e (js ''cookie'') = Some c \<longrightarrow> \<not> truthy (cookieFromHeader (tokenName cfg) c))"
  then have "\<not> truthy (snd (storageToken e cfg slot))"
    by (intro storageToken_nothing) auto
  with h show "snd (getAuth e cfg key) = Inr None"
    by (auto simp: getAuth_result resolveToken_def Let_def split: prod.splits)
qed

text \<open>
  Claim C3 on concrete runs: a hook token beside a stored cookie, a stored cookie, a
  local storage item, and a client with nothing stored.
\<close>

theorem resolveToken_precedence_witness:
  "resolveToken ((clientEnv (Some (js ''stored'')))\<lparr>authHook := (\<lambda>k. HookSlot (Some (js ''fromhook'')))\<rparr>)
      scenarioConfig (js ''default'') = ([], Inr (Some (js ''fromhook''))) \<and>
   (\<exists>slot. authHook (clientEnv (Some (js ''stored''))) (js ''default'') = HookSlot slot \<and> \<not> truthy slot) \<and>
   resolveToken (clientEnv (Some (js ''stored''))) scenarioConfig (js ''default'')
      = ([UseCookie (js ''tok'')], Inr (Some (js ''stored''))) \<and>
   resolveToken ((clientEnv None)\<lparr>localStorageItem := (\<lambda>n. Some (js ''kept''))\<rparr>)
      (scenarioConfig\<lparr>tokenStorage := LocalStorage\<rparr>) (js ''default'')
      = ([LocalStorageGetItem (js ''tok'')], Inr (Some (js ''kept''))) \<and>
   (\<exists>r. snd (getAuth (clientEnv None) scenarioConfig (js ''default'')) = Inr r) \<and>
   snd (getAuth (clientEnv None) scenarioConfig (js ''default'')) = Inr None"
proof -
  let ?k = "js ''default''"
  let ?eh = "(clientEnv (Some (js ''stored'')))\<lparr>authHook := (\<lambda>k. HookSlot (Some (js ''fromhook'')))\<rparr>"
  let ?ec = "clientEnv (Some (js ''stored''))"
  let ?el = "(clientEnv None)\<lparr>localStorageItem := (\<lambda>n. Some (js ''kept''))\<rparr>"
  let ?cl = "scenarioConfig\<lparr>tokenStorage := LocalStorage\<rparr>"
  have h1: "authHook ?eh ?k = HookSlot (Some (js ''fromhook'')) \<and> js ''fromhook'' \<noteq> []"
    by (simp add: clientEnv_def js_def)
  have 1: "resolveToken ?eh scenarioConfig ?k = ([], Inr (Some (js ''fromhook'')))"
    using resolveToken_precedence[where e = ?eh and key = ?k and t = "js ''fromhook''" and cfg = scenarioConfig]
      h1 by blast
  have h3: "authHook ?ec ?k = HookSlot None \<and> \<not> truthy None \<and>
      tokenStorage scenarioConfig = CookieStorage \<and> \<not> processServer ?ec"
    by (simp add: clientEnv_def scenarioConfig_def)
  have 3: "resolveToken ?ec scenarioConfig ?k = ([UseCookie (js ''tok'')], Inr (Some (js ''stored'')))"
    using resolveToken_precedence[where e = ?ec and key = ?k and cfg = scenarioConfig and slot = None]
      h3 by (simp add: clientEnv_def scenarioConfig_def js_def)
  have h2: "UseCookie (js ''tok'') \<in> set (fst (resolveToken ?ec scenarioConfig ?k))"
    by (simp add: 3)
  have 2: "\<exists>slot. authHook ?ec ?k = HookSlot slot \<and> \<not> truthy slot"
    using resolveToken_precedence[where e = ?ec and key = ?k and cfg = scenarioConfig
        and a = "UseCookie (js ''tok'')"] h2 by blast
  have h4: "authHook ?el ?k = HookSlot None \<and> \<not> truthy None \<and>
      tokenStorage ?cl = LocalStorage \<and> \<not> processServer ?el"
    by (simp add: clientEnv_def scenarioConfig_def)
  have 4: "resolveToken ?el ?cl ?k = ([LocalStorageGetItem (js ''tok'')], Inr (Some (js ''kept'')))"
    using resolveToken_precedence[where e = ?el and key = ?k and cfg = ?cl and slot = None]
      h4 by (simp add: clientEnv_def scenarioConfig_def js_def)
  have h5: "authHook (clientEnv None) ?k = HookSlot None"
    by (simp add: clientEnv_def)
  have 5: "\<exists>r. snd (getAuth (clientEnv None) scenarioConfig ?k) = Inr r"
    using resolveToken_precedence[where e = "clientEnv None" and key = ?k and cfg = scenarioConfig
        and slot = None] h5 by blast
  have h6: "authHook (clientEnv None) ?k = HookSlot None \<and> \<not> truthy None \<and>
      \<not> truthy (cookieValue (clientEnv None) (tokenName scenarioConfig)) \<and>
      \<not> truthy (localStorageItem (clientEnv None) (tokenName scenarioConfig)) \<and>
      (\<forall>c. requestHeaders (clientEnv None) (js ''cookie'') = Some c \<longrightarrow>
           \<not> truthy (cookieFromHeader (tokenName scenarioConfig) c))"
    by (simp add: clientEnv_def)
  have 6: "snd (getAuth (clientEnv None) scenarioConfig ?k) = Inr None"
    using resolveToken_precedence[where e = "clientEnv None" and key = ?k and cfg = scenarioConfig
        and slot = None] h6 by blast
  from 1 2 3 4 5 6 show ?thesis by blast
qed

section \<open>The auth link without credential (C8)\<close>

text \<open>
  Claim C8. When \<open>getAuth\<close> yields no credential for an operation, the setter of the
  auth link returns nothing and the operation goes on with its context unchanged: no
  auth header is attached and the headers are the caller's.
\<close>

theorem authLink_no_credential:
  assumes "snd (getAuth e cfg key) = Inr None"
  shows "authLinkSetter e cfg key (ctxHeaders ctx) = Inr None \<and> authLink e cfg key ctx = Inr ctx"
  using assms by (simp add: authLink_def authLinkSetter_def)

text \<open>
  Claim C8 on a server run whose cookie header holds no token, for an operation with
  one header of the caller's.
\<close>

theorem authLink_no_credential_witness:
  "authLinkSetter (serverEnv (js ''other=x'')) scenarioConfig (js ''default'')
       (ctxHeaders \<lparr>ctxHeaders = Some [js ''accept'' \<mapsto> js ''*/*'']\<rparr>) = Inr None \<and>
   authLink (serverEnv (js ''other=x'')) scenarioConfig (js ''default'')
       \<lparr>ctxHeaders = Some [js ''accept'' \<mapsto> js ''*/*'']\<rparr>
     = Inr \<lparr>ctxHeaders = Some [js ''accept'' \<mapsto> js ''*/*'']\<rparr>"
  by (rule authLink_no_credential[OF getAuth_no_cookie])

section \<open>Forwarding of the request's cookie header (C10)\<close>

text \<open>
  Claim C10. On a server run with cookie proxying and a cookie header \<open>c\<close> on the
  request: when \<open>getAuth\<close> yields a credential, the auth link sends the operation on
  with its headers replaced by the caller's headers with \<open>cookie: c\<close> spread over them
  and the auth header on top, so that the operation's headers hold the whole of \<open>c\<close>
  under \<open>cookie\<close> (unless that is the auth header's own name); the link changes the
  context, and its setter returns headers, only when a credential is resolved; and
  without credential the setter returns nothing and the context is unchanged, so the
  cookie header is not forwarded either.
\<close>

theorem authLink_cookie_forwarding:
  assumes "processServer e" "proxyCookies e" "requestHeaders e (js ''cookie'') = Some c" "c \<noteq> []"
  shows "(\<forall>a. snd (getAuth e cfg key) = Inr (Some a) \<longrightarrow>
            authLink e cfg key ctx =
              Inr (ctx\<lparr>ctxHeaders :=
                     Some ((spread (ctxHeaders ctx) ++ [js ''cookie'' \<mapsto> c])(authHeader cfg \<mapsto> a))\<rparr>) \<and>
            authLinkSetter e cfg key hdrs =
              Inr (Some ((spread hdrs ++ [js ''cookie'' \<mapsto> c])(authHeader cfg \<mapsto> a))) \<and>
            (authHeader cfg \<noteq> js ''cookie'' \<longrightarrow>
               (\<exists>ctx'. authLink e cfg key ctx = Inr ctx' \<and>
                       spread (ctxHeaders ctx') (js ''cookie'') = Some c) \<and>
               ((spread hdrs ++ [js ''cookie'' \<mapsto> c])(authHeader cfg \<mapsto> a)) (js ''cookie'') = Some c)) \<and>
         (\<forall>h. authLinkSetter e cfg key hdrs = Inr (Some h) \<longrightarrow> (\<exists>a. snd (getAuth e cfg key) = Inr (Some a))) \<and>
         (\<forall>ctx'. authLink e cfg key ctx = Inr ctx' \<and> ctx' \<noteq> ctx \<longrightarrow>
            (\<exists>a. snd (getAuth e cfg key) = Inr (Some a))) \<and>
         (snd (getAuth e cfg key) = Inr None \<longrightarrow>
            authLinkSetter e cfg key hdrs = Inr None \<and> authLink e cfg key ctx = Inr ctx)"
proof -
  have rc: "requestCookies e = Some [js ''cookie'' \<mapsto> c]"
    using assms by (rule requestCookies_server)
  have setter: "authLinkSetter e cfg key h =
      Inr (Some ((spread h ++ [js ''cookie'' \<mapsto> c])(authHeader cfg \<mapsto> a)))"
    if a: "snd (getAuth e cfg key) = Inr (Some a)" for a h
  proof -
    from a have "a \<noteq> []" by (rule getAuth_nonempty)
    with a show ?thesis by (simp add: authLinkSetter_def rc spread_def)
  qed
  have link: "authLink e cfg key ctx =
      Inr (ctx\<lparr>ctxHeaders :=
             Some ((spread (ctxHeaders ctx) ++ [js ''cookie'' \<mapsto> c])(authHeader cfg \<mapsto> a))\<rparr>)"
    if a: "snd (getAuth e cfg key) = Inr (Some a)" for a
    by (simp add: authLink_def setter[OF a])
  show ?thesis
  proof (intro conjI allI impI)
    fix a assume a: "snd (getAuth e cfg key) = Inr (Some a)"
    show "authLink e cfg key ctx =
      Inr (ctx\<lparr>ctxHeaders :=
             Some ((spread (ctxHeaders ctx) ++ [js ''cookie'' \<mapsto> c])(authHeader cfg \<mapsto> a))\<rparr>)"
      by (rule link[OF a])
    show "authLinkSetter e cfg key hdrs =
              Inr (Some ((spread hdrs ++ [js ''cookie'' \<mapsto> c])(authHeader cfg \<mapsto> a)))"
      by (rule setter[OF a])
    assume d: "authHeader cfg \<noteq> js ''cookie''"
    show "\<exists>ctx'. authLink e cfg key ctx = Inr ctx' \<and> spread (ctxHeaders ctx') (js ''cookie'') = Some c"
      using d by (simp add: link[OF a] spread_def)
    show "((spread hdrs ++ [js ''cookie'' \<mapsto> c])(authHeader cfg \<mapsto> a)) (js ''cookie'') = Some c"
      using d by simp
  next
    fix h assume "authLinkSetter e cfg key hdrs = Inr (Some h)"
    then show "\<exists>a. snd (getAuth e cfg key) = Inr (Some a)"
      by (auto simp: authLinkSetter_def split: sum.splits option.splits if_splits)
  next
    fix ctx' assume "authLink e cfg key ctx = Inr ctx' \<and> ctx' \<noteq> ctx"
    then show "\<exists>a. snd (getAuth e cfg key) = Inr (Some a)"
      by (auto simp: authLink_def authLinkSetter_def split: sum.splits option.splits if_splits)
  next
    assume n: "snd (getAuth e cfg key) = Inr None"
    then show "authLinkSetter e cfg key hdrs = Inr None" by (simp add: authLinkSetter_def)
    from n show "authLink e cfg key ctx = Inr ctx" by (simp add: authLink_def authLinkSetter_def)
  qed
qed

text \<open>
  Claim C10 for an operation with one header of the caller's: on the scenario header
  \<open>tok=abc123; other=x\<close> the operation goes on with the headers \<open>cookie\<close>,
  \<open>Authorization\<close> and \<open>accept\<close>; on the header \<open>other=x\<close> its context is unchanged.
\<close>

theorem authLink_cookie_forwarding_witness:
  "authLink (serverEnv (js ''tok=abc123; other=x'')) scenarioConfig (js ''default'')
       \<lparr>ctxHeaders = Some [js ''accept'' \<mapsto> js ''*/*'']\<rparr> =
     Inr (\<lparr>ctxHeaders = Some [js ''accept'' \<mapsto> js ''*/*'']\<rparr>
            \<lparr>ctxHeaders := Some ((spread (Some [js ''accept'' \<mapsto> js ''*/*'']) ++
                  [js ''cookie'' \<mapsto> js ''tok=abc123; other=x''])
                 (authHeader scenarioConfig \<mapsto> js ''Bearer abc123''))\<rparr>) \<and>
   (case authLink (serverEnv (js ''tok=abc123; other=x'')) scenarioConfig (js ''default'')
           \<lparr>ctxHeaders = Some [js ''accept'' \<mapsto> js ''*/*'']\<rparr> of
      Inl err \<Rightarrow> [None, None, None]
    | Inr ctx' \<Rightarrow> map (spread (ctxHeaders ctx')) [js ''cookie'', js ''Authorization'', js ''accept''])
     = [Some (js ''tok=abc123; other=x''), Some (js ''Bearer abc123''), Some (js ''*/*'')] \<and>
   authLinkSetter (serverEnv (js ''tok=abc123; other=x'')) scenarioConfig (js ''default'') None =
     Inr (Some ((spread None ++ [js ''cookie'' \<mapsto> js ''tok=abc123; other=x''])
                 (authHeader scenarioConfig \<mapsto> js ''Bearer abc123''))) \<and>
   authLinkSetter (serverEnv (js ''other=x'')) scenarioConfig (js ''default'') None = Inr None \<and>
   authLink (serverEnv (js ''other=x'')) scenarioConfig (js ''default'')
       \<lparr>ctxHeaders = Some [js ''accept'' \<mapsto> js ''*/*'']\<rparr>
     = Inr \<lparr>ctxHeaders = Some [js ''accept'' \<mapsto> js ''*/*'']\<rparr>"
proof -
  let ?ctx = "\<lparr>ctxHeaders = Some [js ''accept'' \<mapsto> js ''*/*'']\<rparr>"
  have s: "processServer (serverEnv c)" "proxyCookies (serverEnv c)"
    "requestHeaders (serverEnv c) (js ''cookie'') = Some c" for c
    by (simp_all add: serverEnv_def)
  have n1: "js ''tok=abc123; other=x'' \<noteq> []" and n2: "js ''other=x'' \<noteq> []"
    by (simp_all add: js_def)
  have k: "js ''cookie'' \<noteq> js ''Authorization''" "js ''accept'' \<noteq> js ''Authorization''"
    "js ''accept'' \<noteq> js ''cookie''" "authHeader scenarioConfig = js ''Authorization''"
    by (simp_all add: scenarioConfig_def js_def)
  note A = authLink_cookie_forwarding[OF s n1, of scenarioConfig "js ''default''" ?ctx None]
  note B = authLink_cookie_forwarding[OF s n2, of scenarioConfig "js ''default''" ?ctx None]
  have 1: "authLink (serverEnv (js ''tok=abc123; other=x'')) scenarioConfig (js ''default'') ?ctx =
     Inr (?ctx\<lparr>ctxHeaders := Some ((spread (Some [js ''accept'' \<mapsto> js ''*/*'']) ++
                  [js ''cookie'' \<mapsto> js ''tok=abc123; other=x''])
                 (authHeader scenarioConfig \<mapsto> js ''Bearer abc123''))\<rparr>)"
    using A getAuth_scenario by simp
  have 2: "(case authLink (serverEnv (js ''tok=abc123; other=x'')) scenarioConfig (js ''default'') ?ctx of
      Inl err \<Rightarrow> [None, None, None]
    | Inr ctx' \<Rightarrow> map (spread (ctxHeaders ctx')) [js ''cookie'', js ''Authorization'', js ''accept''])
     = [Some (js ''tok=abc123; other=x''), Some (js ''Bearer abc123''), Some (js ''*/*'')]"
    unfolding 1 using k by (simp add: spread_def map_add_def)
  have 3: "authLinkSetter (serverEnv (js ''tok=abc123; other=x'')) scenarioConfig (js ''default'') None =
     Inr (Some ((spread None ++ [js ''cookie'' \<mapsto> js ''tok=abc123; other=x''])
                 (authHeader scenarioConfig \<mapsto> js ''Bearer abc123'')))"
    using A getAuth_scenario by blast
  have 4: "authLinkSetter (serverEnv (js ''other=x'')) scenarioConfig (js ''default'') None = Inr None"
    and 5: "authLink (serverEnv (js ''other=x'')) scenarioConfig (js ''default'') ?ctx = Inr ?ctx"
    using B getAuth_no_cookie by blast+
  from 1 2 3 4 5 show ?thesis by blast
qed

section \<open>Routing of operations (C4)\<close>

text \<open>
  Claim C4. When the subscription link is built (a client run with a subscription
  endpoint) and \<open>websocketsOnly\<close> is false, the chain is decided for each operation by
  its main definition: an operation of type subscription is sent to the subscription
  link, every other one (query, mutation, or a document whose main definition is a
  fragment) through the auth link to the HTTP link.
\<close>

theorem link_split_routing:
  assumes "\<not> processServer e" "wsEndpoint cfg = Some url" "url \<noteq> []" "\<not> websocketsOnly cfg"
  shows "(mainDefinition = OperationDefinition Subscription \<longrightarrow>
            link e cfg mainDefinition = [ErrorLink, WsLink url]) \<and>
         (mainDefinition \<noteq> OperationDefinition Subscription \<longrightarrow>
            link e cfg mainDefinition = [ErrorLink, AuthLink, HttpLink (httpUri e cfg)])"
  using assms
  by (auto simp: link_def wsLink_def splitTest_def httpLink_def
      split: definition_node.splits operation_type.splits)

text \<open>
  Claim C4 on the scenario configuration in a client run: one client, three operations.
\<close>

theorem link_split_routing_witness:
  "link (clientEnv None) scenarioConfig (OperationDefinition Subscription)
     = [ErrorLink, WsLink (js ''wss://api/graphql'')] \<and>
   link (clientEnv None) scenarioConfig (OperationDefinition Query)
     = [ErrorLink, AuthLink, HttpLink (js ''https://api/graphql'')] \<and>
   link (clientEnv None) scenarioConfig (OperationDefinition Mutation)
     = [ErrorLink, AuthLink, HttpLink (js ''https://api/graphql'')]"
proof -
  have h: "\<not> processServer (clientEnv None)"
    "wsEndpoint scenarioConfig = Some (js ''wss://api/graphql'')"
    "js ''wss://api/graphql'' \<noteq> []" "\<not> websocketsOnly scenarioConfig"
    by (simp_all add: clientEnv_def scenarioConfig_def js_def)
  have u: "httpUri (clientEnv None) scenarioConfig = js ''https://api/graphql''"
    by (simp add: httpUri_def scenarioConfig_def)
  have "link (clientEnv None) scenarioConfig (OperationDefinition Subscription)
     = [ErrorLink, WsLink (js ''wss://api/graphql'')]"
    using link_split_routing[OF h, of "OperationDefinition Subscription"] by simp
  moreover have "link (clientEnv None) scenarioConfig (OperationDefinition Query)
     = [ErrorLink, AuthLink, HttpLink (js ''https://api/graphql'')]"
    using link_split_routing[OF h, of "OperationDefinition Query"] u by simp
  moreover have "link (clientEnv None) scenarioConfig (OperationDefinition Mutation)
     = [ErrorLink, AuthLink, HttpLink (js ''https://api/graphql'')]"
    using link_split_routing[OF h, of "OperationDefinition Mutation"] u by simp
  ultimately show ?thesis by blast
qed

section \<open>Connection parameters on reconnect (C5)\<close>

text \<open>
  The supplier starts from the configured parameters \<open>p\<close>, given as an object or as
  what the configured function yields. Without credential it returns \<open>p\<close>; with a
  credential \<open>a\<close> it returns \<open>p\<close> with the headers \<open>[authHeader \<mapsto> a] ++ headers p\<close>:
  a header that the configuration gives under the auth header's name overrides the
  credential.
\<close>

lemma connectionParams_headers:
  assumes "snd (getAuth e cfg key) = Inr (Some a)"
    and "wsConnectionParams cfg = CPLiteral p \<or> wsConnectionParams cfg = CPFunction (Inr (Some p))"
  shows "connectionParams e cfg key =
           Inr (Some \<lparr>cpHeaders = Some ([authHeader cfg \<mapsto> a] ++ spread (cpHeaders p)),
                      cpOther = cpOther p\<rparr>)"
  using assms getAuth_nonempty[OF assms(1)] by (auto simp: connectionParams_def)

lemma connectionParams_no_credential:
  assumes "snd (getAuth e cfg key) = Inr None"
    and "wsConnectionParams cfg = CPLiteral p \<or> wsConnectionParams cfg = CPFunction (Inr (Some p))"
  shows "connectionParams e cfg key = Inr (Some p)"
  using assms by (auto simp: connectionParams_def)

lemma connectionParams_caller_precedence:
  assumes "snd (getAuth e cfg key) = Inr (Some a)"
    and "wsConnectionParams cfg = CPLiteral p \<or> wsConnectionParams cfg = CPFunction (Inr (Some p))"
    and "cpHeaders p = Some h" "h (authHeader cfg) = Some v"
  shows "\<exists>q. connectionParams e cfg key = Inr (Some q) \<and> spread (cpHeaders q) (authHeader cfg) = Some v"
  using connectionParams_headers[OF assms(1,2)] assms(3,4) by (simp add: spread_def)

lemma getAuth_client_cookie:
  "snd (getAuth (clientEnv (Some (js ''fresh''))) (scenarioConfig\<lparr>wsConnectionParams := w\<rparr>) (js ''default''))
     = Inr (Some (js ''Bearer fresh''))"
proof -
  have "\<not> authScheme (js ''fresh'')"
    by (simp add: authScheme_def js_def isAsciiLetter_def isWhiteSpace_def)
  then show ?thesis
    by (simp add: getAuth_result resolveToken_def storageToken_def clientEnv_def scenarioConfig_def
        authValue_def) (simp add: js_def)
qed

text \<open>
  Claim C5 at a failing input. The configured connection parameters hold the header
  \<open>Authorization: Bearer stale\<close> and the cookie store holds the token \<open>fresh\<close>:
  \<open>getAuth\<close> resolves \<open>Bearer fresh\<close>, and the parameters the supplier returns carry
  \<open>Authorization: Bearer stale\<close>. The claim gives the auth header precedence, as the
  auth link of the HTTP path does (line 64 writes it last); line 94 writes it first.
\<close>

theorem connectionParams_stale_header:
  "snd (getAuth (clientEnv (Some (js ''fresh'')))
      (scenarioConfig\<lparr>wsConnectionParams :=
         CPLiteral \<lparr>cpHeaders = Some [js ''Authorization'' \<mapsto> js ''Bearer stale''], cpOther = Map.empty\<rparr>\<rparr>)
      (js ''default'')) = Inr (Some (js ''Bearer fresh'')) \<and>
   (case connectionParams (clientEnv (Some (js ''fresh'')))
      (scenarioConfig\<lparr>wsConnectionParams :=
         CPLiteral \<lparr>cpHeaders = Some [js ''Authorization'' \<mapsto> js ''Bearer stale''], cpOther = Map.empty\<rparr>\<rparr>)
      (js ''default'') of
      Inl err \<Rightarrow> None
    | Inr None \<Rightarrow> None
    | Inr (Some q) \<Rightarrow> spread (cpHeaders q) (js ''Authorization'')) = Some (js ''Bearer stale'')"
proof -
  let ?cfg = "scenarioConfig\<lparr>wsConnectionParams :=
         CPLiteral \<lparr>cpHeaders = Some [js ''Authorization'' \<mapsto> js ''Bearer stale''], cpOther = Map.empty\<rparr>\<rparr>"
  have g: "snd (getAuth (clientEnv (Some (js ''fresh''))) ?cfg (js ''default'')) = Inr (Some (js ''Bearer fresh''))"
    by (rule getAuth_client_cookie)
  have w: "wsConnectionParams ?cfg =
      CPLiteral \<lparr>cpHeaders = Some [js ''Authorization'' \<mapsto> js ''Bearer stale''], cpOther = Map.empty\<rparr>"
    by simp
  have a: "authHeader ?cfg = js ''Authorization''" by (simp add: scenarioConfig_def)
  show ?thesis
    using g connectionParams_headers[OF g disjI1[OF w]] by (simp add: a spread_def)
qed

section \<open>Facts about the plugin loop\<close>

lemma constructClient_fields:
  "caches (constructClient e st x) = caches st @ [FreshCache]"
  "clients (constructClient e st x) = (clients st)(fst x \<mapsto> newApolloClient e (fst x) (length (caches st)))"
  "clientsWrites (constructClient e st x) = clientsWrites st @ [fst x]"
  "renderedHooks (constructClient e st x) = renderedHooks st"
  "payloadData (constructClient e st x) = payloadData st"
  by (simp_all add: constructClient_def)

lemma aliasDefault_fields:
  "caches (aliasDefault configs st k) = caches st"
  "renderedHooks (aliasDefault configs st k) = renderedHooks st"
  "payloadData (aliasDefault configs st k) = payloadData st"
  by (simp_all add: aliasDefault_def)

lemma registerRendered_fields:
  "caches (registerRendered st k c) = caches st"
  "clients (registerRendered st k c) = clients st"
  "clientsWrites (registerRendered st k c) = clientsWrites st"
  "renderedHooks (registerRendered st k c) = renderedHooks st @ [(cacheKey k, c)]"
  "payloadData (registerRendered st k c) = payloadData st"
  by (simp_all add: registerRendered_def)

lemma restoreCache_fields:
  "clients (restoreCache e st k c) = clients st"
  "clientsWrites (restoreCache e st k c) = clientsWrites st"
  "renderedHooks (restoreCache e st k c) = renderedHooks st"
  "payloadData (restoreCache e st k c) = payloadData st"
  by (simp_all add: restoreCache_def)

lemmas step_fields =
  constructClient_fields aliasDefault_fields registerRendered_fields restoreCache_fields

lemma iter_payloadData: "payloadData (pluginIteration e configs st x) = payloadData st"
  by (simp add: pluginIteration_def Let_def step_fields)

lemma iter_renderedHooks:
  "renderedHooks (pluginIteration e configs st x) =
     renderedHooks st @ [(cacheKey (fst x), length (caches st))]"
  by (simp add: pluginIteration_def Let_def step_fields)

lemma iter_caches:
  "caches (pluginIteration e configs st x) =
     caches st @ [if \<not> processServer e \<and> jsTruthy (payloadData st (cacheKey (fst x)))
                  then RestoredCache (payloadData st (cacheKey (fst x))) else FreshCache]"
  by (simp add: pluginIteration_def Let_def restoreCache_def step_fields)

lemma iter_clients:
  "clients (pluginIteration e configs st x) =
     clients (aliasDefault configs (constructClient e st x) (fst x))"
  by (simp add: pluginIteration_def Let_def step_fields)

lemma iter_clientsWrites:
  "clientsWrites (pluginIteration e configs st x) =
     clientsWrites (aliasDefault configs (constructClient e st x) (fst x))"
  by (simp add: pluginIteration_def Let_def step_fields)

lemma fold_payloadData:
  "payloadData (foldl (pluginIteration e configs) st xs) = payloadData st"
  by (induction xs arbitrary: st) (simp_all add: iter_payloadData)

lemma fold_caches:
  "caches (foldl (pluginIteration e configs) st xs) =
     caches st @ map (\<lambda>x. if \<not> processServer e \<and> jsTruthy (payloadData st (cacheKey (fst x)))
                          then RestoredCache (payloadData st (cacheKey (fst x))) else FreshCache) xs"
  by (induction xs arbitrary: st) (simp_all add: iter_caches iter_payloadData)

lemma fold_renderedHooks:
  "renderedHooks (foldl (pluginIteration e configs) st xs) =
     renderedHooks st @ map (\<lambda>(i, x). (cacheKey (fst x), i)) (enumerate (length (caches st)) xs)"
  by (induction xs arbitrary: st) (simp_all add: iter_renderedHooks iter_caches)

lemma aliasDefault_not_first:
  "at_index (map fst configs) 0 \<noteq> Some k \<or> map_of configs (js ''default'') \<noteq> None \<Longrightarrow>
   aliasDefault configs st k = st"
  by (auto simp: aliasDefault_def)

lemma aliasDefault_clients_other:
  "k \<noteq> js ''default'' \<Longrightarrow> clients (aliasDefault configs st key) k = clients st k"
  by (simp add: aliasDefault_def)

lemma iter_clients_own:
  "clients (pluginIteration e configs st x) (fst x) = Some (newApolloClient e (fst x) (length (caches st)))"
  by (simp add: iter_clients aliasDefault_def constructClient_fields)

lemma iter_clients_other:
  assumes "k \<noteq> fst x"
    and "k = js ''default'' \<Longrightarrow>
           at_index (map fst configs) 0 \<noteq> Some (fst x) \<or> map_of configs (js ''default'') \<noteq> None"
  shows "clients (pluginIteration e configs st x) k = clients st k"
proof (cases "k = js ''default''")
  case True
  with assms(2) have "aliasDefault configs (constructClient e st x) (fst x) = constructClient e st x"
    by (intro aliasDefault_not_first) simp
  then show ?thesis using assms(1) by (simp add: iter_clients constructClient_fields)
next
  case False
  then show ?thesis
    using assms(1) by (simp add: iter_clients aliasDefault_clients_other constructClient_fields)
qed

lemma fold_clients_other:
  assumes "k \<notin> fst ` set xs"
    and "k = js ''default'' \<Longrightarrow>
           (\<forall>x\<in>set xs. at_index (map fst configs) 0 \<noteq> Some (fst x)) \<or> map_of configs (js ''default'') \<noteq> None"
  shows "clients (foldl (pluginIteration e configs) st xs) k = clients st k"
  using assms
proof (induction xs arbitrary: st)
  case Nil
  then show ?case by simp
next
  case (Cons x xs)
  have "clients (foldl (pluginIteration e configs) (pluginIteration e configs st x) xs) k
          = clients (pluginIteration e configs st x) k"
    using Cons.prems by (intro Cons.IH) auto
  also have "\<dots> = clients st k"
    using Cons.prems by (intro iter_clients_other) auto
  finally show ?case by simp
qed

lemma fold_clientsWrites_rest:
  assumes "\<forall>x\<in>set xs. at_index (map fst configs) 0 \<noteq> Some (fst x)"
  shows "clientsWrites (foldl (pluginIteration e configs) st xs) = clientsWrites st @ map fst xs"
  using assms
proof (induction xs arbitrary: st)
  case Nil
  then show ?case by simp
next
  case (Cons x xs)
  have "aliasDefault configs (constructClient e st x) (fst x) = constructClient e st x"
    using Cons.prems by (intro aliasDefault_not_first) simp
  then have "clientsWrites (pluginIteration e configs st x) = clientsWrites st @ [fst x]"
    by (simp add: iter_clientsWrites constructClient_fields)
  moreover have "clientsWrites (foldl (pluginIteration e configs) (pluginIteration e configs st x) xs)
          = clientsWrites (pluginIteration e configs st x) @ map fst xs"
    using Cons.prems by (intro Cons.IH) simp
  ultimately show ?case by simp
qed

lemma fold_clients_declared:
  assumes "distinct (map fst xs)" "i < length xs"
    and "map_of configs (js ''default'') = None \<Longrightarrow> js ''default'' \<notin> fst ` set xs"
  shows "clients (foldl (pluginIteration e configs) st xs) (fst (xs ! i))
           = Some (newApolloClient e (fst (xs ! i)) (length (caches st) + i))"
  using assms
proof (induction xs arbitrary: st i)
  case Nil
  then show ?case by simp
next
  case (Cons x xs)
  show ?case
  proof (cases i)
    case 0
    have "clients (foldl (pluginIteration e configs) (pluginIteration e configs st x) xs) (fst x)
            = clients (pluginIteration e configs st x) (fst x)"
      using Cons.prems by (intro fold_clients_other) auto
    then show ?thesis using 0 by (simp add: iter_clients_own)
  next
    case (Suc j)
    have "clients (foldl (pluginIteration e configs) (pluginIteration e configs st x) xs) (fst (xs ! j))
            = Some (newApolloClient e (fst (xs ! j)) (length (caches (pluginIteration e configs st x)) + j))"
      using Cons.prems Suc by (intro Cons.IH) auto
    then show ?thesis using Suc by (simp add: iter_caches)
  qed
qed

lemma plugin_hooks:
  "renderedHooks (plugin e configs payload) =
     map (\<lambda>(i, x). (js ''_apollo:'' @ fst x, i)) (enumerate 0 configs)"
  by (simp add: plugin_def fold_renderedHooks initialState_def cacheKey_def)

text \<open>
  The loop on a list of entries whose first key is \<open>k0\<close>, with distinct keys and
  without the key \<open>default\<close>: the alias is set in the first iteration, to the client
  of \<open>k0\<close>, and in no later one.
\<close>

lemma plugin_alias_ordered:
  assumes "configs = (k0, cfg0) # rest" "distinct (map fst configs)"
    "js ''default'' \<notin> set (map fst configs)"
  shows "clients (plugin e configs payload) (js ''default'') = clients (plugin e configs payload) k0 \<and>
         clients (plugin e configs payload) k0 = Some (newApolloClient e k0 0) \<and>
         clientsWrites (plugin e configs payload) = k0 # js ''default'' # map fst rest \<and>
         count_list (clientsWrites (plugin e configs payload)) (js ''default'') = 1"
proof -
  let ?it = "pluginIteration e configs"
  let ?st1 = "?it (initialState payload) (k0, cfg0)"
  have first: "at_index (map fst configs) 0 = Some k0"
    using assms(1) by (simp add: at_index_def)
  have nodef: "map_of configs (js ''default'') = None"
    using assms(3) by (simp add: map_of_eq_None_iff)
  have k0: "k0 \<noteq> js ''default''" "k0 \<notin> fst ` set rest" "js ''default'' \<notin> fst ` set rest"
    using assms by auto
  have rest: "\<forall>x\<in>set rest. at_index (map fst configs) 0 \<noteq> Some (fst x)"
    using first k0(2) by auto
  have p: "plugin e configs payload = foldl ?it ?st1 rest"
    by (simp add: plugin_def assms(1))
  have i0: "clients (initialState payload) = Map.empty" "clientsWrites (initialState payload) = []"
    "caches (initialState payload) = []"
    by (simp_all add: initialState_def)
  let ?c = "constructClient e (initialState payload) (k0, cfg0)"
  have cc: "clients ?c = [k0 \<mapsto> newApolloClient e k0 0]" "clientsWrites ?c = [k0]"
    by (simp_all add: constructClient_fields i0)
  have al: "aliasDefault configs ?c k0 =
      ?c\<lparr>clients := (clients ?c)(js ''default'' := clients ?c k0),
         clientsWrites := clientsWrites ?c @ [js ''default'']\<rparr>"
    using first nodef k0(1) by (simp add: aliasDefault_def cc)
  have c1: "clients ?st1 (js ''default'') = Some (newApolloClient e k0 0)"
    and c2: "clients ?st1 k0 = Some (newApolloClient e k0 0)"
    and w1: "clientsWrites ?st1 = [k0, js ''default'']"
    unfolding iter_clients iter_clientsWrites fst_conv al using k0(1) by (simp_all add: cc)
  have d: "clients (foldl ?it ?st1 rest) (js ''default'') = clients ?st1 (js ''default'')"
    using k0(3) rest by (intro fold_clients_other) auto
  have k: "clients (foldl ?it ?st1 rest) k0 = clients ?st1 k0"
    using k0 by (intro fold_clients_other) auto
  have w: "clientsWrites (foldl ?it ?st1 rest) = clientsWrites ?st1 @ map fst rest"
    using rest by (rule fold_clientsWrites_rest)
  have cnt: "count_list (map fst rest) (js ''default'') = 0"
    using k0(3) by (simp add: count_list_0_iff)
  show ?thesis
    unfolding p d k w c1 c2 w1 using k0(1) cnt by simp
qed

text \<open>The order of \<open>Object.entries\<close>.\<close>

lemma set_objectEntries: "set (objectEntries declared) = set declared"
  by (auto simp: objectEntries_def)

lemma objectEntries_nonempty: "declared \<noteq> [] \<Longrightarrow> objectEntries declared \<noteq> []"
  using set_objectEntries[of declared] by (metis set_empty)

lemma distinct_objectEntries:
  assumes "distinct (map fst declared)"
  shows "distinct (map fst (objectEntries declared))"
proof -
  have d: "distinct declared" and i: "inj_on fst (set declared)"
    using assms by (simp_all add: distinct_map)
  have "distinct (objectEntries declared)"
    using d by (auto simp: objectEntries_def)
  then show ?thesis
    using i by (simp add: distinct_map set_objectEntries)
qed

lemma objectEntries_no_index:
  assumes "\<not> list_ex isArrayIndex (map fst declared)"
  shows "objectEntries declared = declared"
proof -
  have n: "\<forall>x\<in>set declared. \<not> isArrayIndex (fst x)"
    using assms by (auto simp: list_ex_iff)
  then have "filter (\<lambda>x. isArrayIndex (fst x)) declared = []"
    "filter (\<lambda>x. \<not> isArrayIndex (fst x)) declared = declared"
    by (simp_all add: filter_empty_conv)
  then show ?thesis by (simp add: objectEntries_def)
qed

lemma hd_sort_key_least:
  assumes "xs \<noteq> []"
  shows "hd (sort_key f xs) \<in> set xs \<and> (\<forall>x\<in>set xs. f (hd (sort_key f xs)) \<le> f x)"
proof -
  obtain y ys where s: "sort_key f xs = y # ys"
    using assms by (cases "sort_key f xs") (auto dest: arg_cong[where f = set])
  have "sorted (map f (y # ys))" using sorted_sort_key[of f xs] by (simp add: s)
  then have "\<forall>x\<in>set (y # ys). f y \<le> f x" by auto
  moreover have "set (y # ys) = set xs" using set_sort[of f xs] by (simp add: s)
  ultimately show ?thesis by (auto simp: s)
qed

lemma objectEntries_index_first:
  assumes "list_ex isArrayIndex (map fst declared)"
  shows "isArrayIndex (fst (hd (objectEntries declared))) \<and>
         fst (hd (objectEntries declared)) \<in> set (map fst declared) \<and>
         (\<forall>k\<in>set (map fst declared). isArrayIndex k \<longrightarrow>
             digitsValue (fst (hd (objectEntries declared))) \<le> digitsValue k)"
proof -
  let ?ix = "filter (\<lambda>x. isArrayIndex (fst x)) declared"
  have ne: "?ix \<noteq> []"
    using assms by (auto simp: list_ex_iff filter_empty_conv)
  then have sne: "sort_key (\<lambda>x. digitsValue (fst x)) ?ix \<noteq> []"
    by (metis set_sort set_empty)
  have h: "hd (objectEntries declared) = hd (sort_key (\<lambda>x. digitsValue (fst x)) ?ix)"
    using sne by (simp add: objectEntries_def)
  from hd_sort_key_least[OF ne, of "\<lambda>x. digitsValue (fst x)"]
  show ?thesis unfolding h by auto
qed

lemma objectEntries_example:
  "objectEntries [(js ''b'', x), (js ''1'', y)] = [(js ''1'', y), (js ''b'', x)]"
  by (simp add: objectEntries_def isArrayIndex_def isDigit_def digitsValue_def js_def)

section \<open>The default alias (C6)\<close>

text \<open>
  Claim C6, amended. For a configuration map with at least one client and no client
  named \<open>default\<close> (its keys distinct, as the keys of an object are), the loop runs
  over the clients in the order of \<open>Object.keys\<close>. After it, the alias \<open>default\<close> is
  the client stored under the first key of that order, the one constructed in the
  first iteration; the keys assigned to \<open>clients\<close> are that key, then \<open>default\<close>, then
  the other keys, so that \<open>default\<close> is assigned once and no later iteration assigns it
  again. The first key of that order is the first declared key when no key is an array
  index, and the array index of least value otherwise.
\<close>

theorem plugin_default_alias_declared:
  assumes "declared \<noteq> []" "distinct (map fst declared)"
    "js ''default'' \<notin> set (map fst declared)"
  shows "clients (plugin e (objectEntries declared) payload) (js ''default'')
           = clients (plugin e (objectEntries declared) payload) (fst (hd (objectEntries declared))) \<and>
         clients (plugin e (objectEntries declared) payload) (fst (hd (objectEntries declared)))
           = Some (newApolloClient e (fst (hd (objectEntries declared))) 0) \<and>
         clientsWrites (plugin e (objectEntries declared) payload)
           = fst (hd (objectEntries declared)) # js ''default'' # map fst (tl (objectEntries declared)) \<and>
         count_list (clientsWrites (plugin e (objectEntries declared) payload)) (js ''default'') = 1 \<and>
         (\<not> list_ex isArrayIndex (map fst declared) \<longrightarrow>
            fst (hd (objectEntries declared)) = fst (hd declared)) \<and>
         (list_ex isArrayIndex (map fst declared) \<longrightarrow>
            isArrayIndex (fst (hd (objectEntries declared))) \<and>
            fst (hd (objectEntries declared)) \<in> set (map fst declared) \<and>
            (\<forall>k\<in>set (map fst declared). isArrayIndex k \<longrightarrow>
                digitsValue (fst (hd (objectEntries declared))) \<le> digitsValue k))"
proof -
  let ?configs = "objectEntries declared"
  have ne: "?configs \<noteq> []" using assms(1) by (rule objectEntries_nonempty)
  then have c: "?configs = (fst (hd ?configs), snd (hd ?configs)) # tl ?configs" by simp
  have d: "distinct (map fst ?configs)" using assms(2) by (rule distinct_objectEntries)
  have n: "js ''default'' \<notin> set (map fst ?configs)"
    using assms(3) by (simp add: set_objectEntries)
  note A = plugin_alias_ordered[OF c d n, of e payload]
  have B: "\<not> list_ex isArrayIndex (map fst declared) \<longrightarrow> fst (hd ?configs) = fst (hd declared)"
    by (simp add: objectEntries_no_index)
  have C: "list_ex isArrayIndex (map fst declared) \<longrightarrow>
            isArrayIndex (fst (hd ?configs)) \<and> fst (hd ?configs) \<in> set (map fst declared) \<and>
            (\<forall>k\<in>set (map fst declared). isArrayIndex k \<longrightarrow>
                digitsValue (fst (hd ?configs)) \<le> digitsValue k)"
    using objectEntries_index_first[of declared] by blast
  from A B C show ?thesis by blast
qed

text \<open>
  The amended claim on the clients \<open>main\<close> and \<open>admin\<close>, and on the clients \<open>b\<close> and
  \<open>1\<close> declared in this order.
\<close>

theorem plugin_default_alias_declared_witness:
  "clients (plugin (serverEnv (js ''tok=abc123'')) (objectEntries [(js ''main'', scenarioConfig), (js ''admin'', scenarioConfig)]) (\<lambda>k. JUndefined))
      (js ''default'')
     = Some (newApolloClient (serverEnv (js ''tok=abc123'')) (js ''main'') 0) \<and>
   clients (plugin (serverEnv (js ''tok=abc123'')) (objectEntries [(js ''main'', scenarioConfig), (js ''admin'', scenarioConfig)]) (\<lambda>k. JUndefined))
      (js ''main'')
     = Some (newApolloClient (serverEnv (js ''tok=abc123'')) (js ''main'') 0) \<and>
   clientsWrites (plugin (serverEnv (js ''tok=abc123'')) (objectEntries [(js ''main'', scenarioConfig), (js ''admin'', scenarioConfig)]) (\<lambda>k. JUndefined))
     = [js ''main'', js ''default'', js ''admin''] \<and>
   count_list (clientsWrites (plugin (serverEnv (js ''tok=abc123'')) (objectEntries [(js ''main'', scenarioConfig), (js ''admin'', scenarioConfig)]) (\<lambda>k. JUndefined)))
      (js ''default'') = 1 \<and>
   clients (plugin (serverEnv (js ''tok=abc123'')) (objectEntries [(js ''b'', scenarioConfig), (js ''1'', scenarioConfig)]) (\<lambda>k. JUndefined))
      (js ''default'')
     = Some (newApolloClient (serverEnv (js ''tok=abc123'')) (js ''1'') 0)"
proof -
  let ?d = "[(js ''main'', scenarioConfig), (js ''admin'', scenarioConfig)]"
  let ?d2 = "[(js ''b'', scenarioConfig), (js ''1'', scenarioConfig)]"
  have h1: "?d \<noteq> []" and g1: "?d2 \<noteq> []" by simp_all
  have h2: "distinct (map fst ?d)" and g2: "distinct (map fst ?d2)" by (simp_all add: js_def)
  have h3: "js ''default'' \<notin> set (map fst ?d)" and g3: "js ''default'' \<notin> set (map fst ?d2)"
    by (simp_all add: js_def)
  have o: "objectEntries ?d = ?d"
    by (simp add: objectEntries_def isArrayIndex_def isDigit_def digitsValue_def js_def)
  have o2: "objectEntries ?d2 = [(js ''1'', scenarioConfig), (js ''b'', scenarioConfig)]"
    by (rule objectEntries_example)
  have k0: "js ''admin'' \<noteq> js ''default''" "js ''main'' \<noteq> js ''default''" by (simp_all add: js_def)
  note A = plugin_default_alias_declared[OF h1 h2 h3, of "serverEnv (js ''tok=abc123'')" "\<lambda>k. JUndefined"]
  note B = plugin_default_alias_declared[OF g1 g2 g3, of "serverEnv (js ''tok=abc123'')" "\<lambda>k. JUndefined"]
  have a: "clients (plugin (serverEnv (js ''tok=abc123'')) (objectEntries ?d) (\<lambda>k. JUndefined)) (js ''default'')
     = Some (newApolloClient (serverEnv (js ''tok=abc123'')) (js ''main'') 0)"
    and b: "clients (plugin (serverEnv (js ''tok=abc123'')) (objectEntries ?d) (\<lambda>k. JUndefined)) (js ''main'')
     = Some (newApolloClient (serverEnv (js ''tok=abc123'')) (js ''main'') 0)"
    and w: "clientsWrites (plugin (serverEnv (js ''tok=abc123'')) (objectEntries ?d) (\<lambda>k. JUndefined))
     = [js ''main'', js ''default'', js ''admin'']"
    and cn: "count_list (clientsWrites (plugin (serverEnv (js ''tok=abc123'')) (objectEntries ?d) (\<lambda>k. JUndefined)))
      (js ''default'') = 1"
    using A k0 unfolding o by simp_all
  have c: "clients (plugin (serverEnv (js ''tok=abc123'')) (objectEntries ?d2) (\<lambda>k. JUndefined)) (js ''default'')
     = Some (newApolloClient (serverEnv (js ''tok=abc123'')) (js ''1'') 0)"
    using B unfolding o2 by simp
  from a b w cn c show ?thesis by blast
qed

text \<open>
  Claim C6 as stated fails: with the clients \<open>b\<close> and \<open>1\<close> declared in this order,
  the first declared key is \<open>b\<close>, but \<open>Object.keys\<close> lists \<open>1\<close> first, the loop
  constructs its client first, and line 149 makes it the alias: \<open>default\<close> is the client
  of \<open>1\<close>, not the one stored under \<open>b\<close>.
\<close>

theorem plugin_default_alias_counterexample:
  "fst (hd [(js ''b'', scenarioConfig), (js ''1'', scenarioConfig)]) = js ''b'' \<and>
   clients (plugin (serverEnv (js ''tok=abc123'')) (objectEntries [(js ''b'', scenarioConfig), (js ''1'', scenarioConfig)]) (\<lambda>k. JUndefined))
      (js ''default'')
     = Some (newApolloClient (serverEnv (js ''tok=abc123'')) (js ''1'') 0) \<and>
   clients (plugin (serverEnv (js ''tok=abc123'')) (objectEntries [(js ''b'', scenarioConfig), (js ''1'', scenarioConfig)]) (\<lambda>k. JUndefined))
      (js ''b'')
     = Some (newApolloClient (serverEnv (js ''tok=abc123'')) (js ''b'') 1) \<and>
   clients (plugin (serverEnv (js ''tok=abc123'')) (objectEntries [(js ''b'', scenarioConfig), (js ''1'', scenarioConfig)]) (\<lambda>k. JUndefined))
      (js ''default'')
     \<noteq> clients (plugin (serverEnv (js ''tok=abc123'')) (objectEntries [(js ''b'', scenarioConfig), (js ''1'', scenarioConfig)]) (\<lambda>k. JUndefined))
      (js ''b'')"
proof -
  let ?e = "serverEnv (js ''tok=abc123'')"
  let ?c = "[(js ''1'', scenarioConfig), (js ''b'', scenarioConfig)]"
  have o2: "objectEntries [(js ''b'', scenarioConfig), (js ''1'', scenarioConfig)] = ?c"
    by (rule objectEntries_example)
  have k: "js ''1'' \<noteq> js ''b''" "js ''1'' \<noteq> js ''default''" "js ''b'' \<noteq> js ''default''"
    by (simp_all add: js_def)
  have c1: "?c = (js ''1'', scenarioConfig) # [(js ''b'', scenarioConfig)]" by simp
  have d: "distinct (map fst ?c)" using k by simp
  have n: "js ''default'' \<notin> set (map fst ?c)" using k by auto
  have A: "clients (plugin ?e ?c (\<lambda>k. JUndefined)) (js ''default'') = Some (newApolloClient ?e (js ''1'') 0)"
    using plugin_alias_ordered[OF c1 d n, of ?e "\<lambda>k. JUndefined"] by simp
  have "clients (foldl (pluginIteration ?e ?c) (initialState (\<lambda>k. JUndefined)) ?c) (fst (?c ! 1))
      = Some (newApolloClient ?e (fst (?c ! 1)) (length (caches (initialState (\<lambda>k. JUndefined))) + 1))"
    using d k by (intro fold_clients_declared) (auto simp: map_of_eq_None_iff)
  then have B: "clients (plugin ?e ?c (\<lambda>k. JUndefined)) (js ''b'') = Some (newApolloClient ?e (js ''b'') 1)"
    by (simp add: plugin_def initialState_def)
  have C: "newApolloClient ?e (js ''1'') 0 \<noteq> newApolloClient ?e (js ''b'') 1"
    by (simp add: newApolloClient_def)
  show ?thesis unfolding o2 using A B C by simp
qed

section \<open>Registration of the cache extraction (C7)\<close>

text \<open>
  Claim C7, amended. In every execution context, server or client, the plugin
  registers on \<open>app:rendered\<close> one cache extraction callback for each configured
  client, in order, writing the payload key \<open>_apollo:<key>\<close> from that client's cache;
  running the plugin itself leaves the payload as it found it.
\<close>

theorem plugin_renderedHooks:
  "renderedHooks (plugin e configs payload) =
     map (\<lambda>(i, x). (js ''_apollo:'' @ fst x, i)) (enumerate 0 configs) \<and>
   payloadData (plugin e configs payload) = payload"
  by (simp add: plugin_hooks) (simp add: plugin_def fold_payloadData initialState_def)

text \<open>
  Claim C7 as stated fails: in a client run with one client the callback is registered
  all the same. Line 155 stands under no test of \<open>process.server\<close>.
\<close>

theorem plugin_renderedHooks_counterexample:
  "\<not> processServer (clientEnv None) \<and>
   renderedHooks (plugin (clientEnv None) [(js ''default'', scenarioConfig)] (\<lambda>k. JUndefined))
     = [(js ''_apollo:default'', 0)]"
  by (simp add: plugin_hooks clientEnv_def) (simp add: js_def)

section \<open>Restoring the cache on the client (C9)\<close>

text \<open>
  Claim C9. In a client run, for the client of every configured key (the keys distinct):
  the client is constructed and stored under its key, and its cache is restored from the
  payload entry \<open>_apollo:<key>\<close> exactly when that entry is truthy, and is left as
  constructed otherwise; an entry that is missing or null is nothing to restore, and
  the client is there in either case.
\<close>

theorem plugin_cache_restore:
  assumes "\<not> processServer e" "distinct (map fst configs)" "i < length configs"
  shows "clients (plugin e configs payload) (fst (configs ! i))
           = Some (newApolloClient e (fst (configs ! i)) i) \<and>
         i < length (caches (plugin e configs payload)) \<and>
         caches (plugin e configs payload) ! i =
           (if jsTruthy (payload (js ''_apollo:'' @ fst (configs ! i)))
            then RestoredCache (payload (js ''_apollo:'' @ fst (configs ! i))) else FreshCache) \<and>
         (payload (js ''_apollo:'' @ fst (configs ! i)) = JUndefined \<or>
          payload (js ''_apollo:'' @ fst (configs ! i)) = JNull \<longrightarrow>
            caches (plugin e configs payload) ! i = FreshCache)"
proof -
  have "map_of configs (js ''default'') = None \<Longrightarrow> js ''default'' \<notin> fst ` set configs"
    by (simp add: map_of_eq_None_iff)
  with assms(2,3)
  have "clients (foldl (pluginIteration e configs) (initialState payload) configs) (fst (configs ! i))
           = Some (newApolloClient e (fst (configs ! i)) (length (caches (initialState payload)) + i))"
    by (rule fold_clients_declared)
  then have c: "clients (plugin e configs payload) (fst (configs ! i))
           = Some (newApolloClient e (fst (configs ! i)) i)"
    by (simp add: plugin_def initialState_def)
  have cs: "caches (plugin e configs payload) =
      map (\<lambda>x. if jsTruthy (payload (cacheKey (fst x)))
                then RestoredCache (payload (cacheKey (fst x))) else FreshCache) configs"
    using assms(1) by (simp add: plugin_def fold_caches initialState_def)
  show ?thesis
    using c assms(3) by (auto simp: cs cacheKey_def)
qed

text \<open>
  Claim C9 on a client run with the client \<open>default\<close>: a payload that holds an object
  under \<open>_apollo:default\<close>, one that holds null, and one that holds nothing.
\<close>

theorem plugin_cache_restore_witness:
  "clients (plugin (clientEnv None) [(js ''default'', scenarioConfig)]
       (\<lambda>k. if k = js ''_apollo:default'' then JObject 7 else JUndefined)) (js ''default'')
     = Some (newApolloClient (clientEnv None) (js ''default'') 0) \<and>
   caches (plugin (clientEnv None) [(js ''default'', scenarioConfig)]
       (\<lambda>k. if k = js ''_apollo:default'' then JObject 7 else JUndefined)) ! 0
     = RestoredCache (JObject 7) \<and>
   clients (plugin (clientEnv None) [(js ''default'', scenarioConfig)] (\<lambda>k. JNull)) (js ''default'')
     = Some (newApolloClient (clientEnv None) (js ''default'') 0) \<and>
   caches (plugin (clientEnv None) [(js ''default'', scenarioConfig)] (\<lambda>k. JNull)) ! 0 = FreshCache \<and>
   caches (plugin (clientEnv None) [(js ''default'', scenarioConfig)] (\<lambda>k. JUndefined)) ! 0 = FreshCache"
proof -
  let ?configs = "[(js ''default'', scenarioConfig)]"
  have h1: "\<not> processServer (clientEnv None)" by (simp add: clientEnv_def)
  have h2: "distinct (map fst ?configs)" by simp
  have h3: "0 < length ?configs" by simp
  have k: "js ''_apollo:'' @ js ''default'' = js ''_apollo:default''" by (simp add: js_def)
  note A = plugin_cache_restore[OF h1 h2 h3,
      of "\<lambda>k. if k = js ''_apollo:default'' then JObject 7 else JUndefined"]
  note B = plugin_cache_restore[OF h1 h2 h3, of "\<lambda>k. JNull"]
  note C = plugin_cache_restore[OF h1 h2 h3, of "\<lambda>k. JUndefined"]
  from A B C show ?thesis by (simp add: k)
qed

end
